theory Spec2Isabelle
  imports Complex_Main "HOL-Library.Word"
begin

section \<open>Data model\<close>

text \<open>
  Wall-clock instants (Go's \<open>time.Time\<close>) are integers counting nanoseconds since the
  Unix epoch, durations (\<open>time.Duration\<close>) are integers counting nanoseconds. A nil
  \<open>*time.Time\<close> and an invalid \<open>sql.NullTime\<close> are \<open>None\<close>.
\<close>

type_synonym time = int
type_synonym duration = int
type_synonym byte = "8 word"

definition Second :: duration where
  "Second = 1000000000"

definition Hour :: duration where
  "Hour = 3600 * Second"

text \<open>
  \<open>domain.URL\<close>. \<open>database.URLMapping\<close>, one row of the table \<open>url_mappings\<close>, has the
  same fields and is the same record here: \<open>sql.NullTime\<close> and \<open>*time.Time\<close> are both
  an option, and the \<open>JSONB\<close> column \<open>metadata\<close> is kept as the string map it encodes, so
  that \<open>dbToDomainURL\<close>, which copies field by field, is the identity.
\<close>

record URL =
  ID :: int
  ShortCode :: string
  LongURL :: string
  UserID :: string
  CreatedAt :: time
  ExpiresAt :: "time option"
  ClickCount :: int
  LastAccessed :: "time option"
  IsActive :: bool
  Metadata :: "(string \<times> string) list"

text \<open>
  The primary store. \<open>url_mappings\<close> holds the rows in insertion order; the column
  \<open>short_code\<close> is \<open>UNIQUE\<close>. \<open>db_up\<close> is false while the connection fails: every
  statement then returns a connection error. \<open>next_id\<close> is the \<open>BIGSERIAL\<close> sequence.
\<close>

record PostgreSQL =
  url_mappings :: "URL list"
  db_up :: bool
  next_id :: int

datatype db_error =
  ErrNoRows | ErrUniqueViolation | ErrConnection | ErrInvalidLimit | ErrNoRowsAffected

text \<open>
  \<open>PostgreSQL.GetURLByShortCode\<close>:
  \<open>SELECT ... FROM url_mappings WHERE short_code = $1 AND is_active = true\<close>.
\<close>

definition GetURLByShortCode :: "PostgreSQL \<Rightarrow> string \<Rightarrow> db_error + URL" where
  "GetURLByShortCode p shortCode =
     (if \<not> db_up p then Inl ErrConnection
      else case find (\<lambda>r. ShortCode r = shortCode \<and> IsActive r) (url_mappings p) of
             None \<Rightarrow> Inl ErrNoRows
           | Some r \<Rightarrow> Inr r)"

section \<open>Shortener: minting short codes\<close>

datatype svc_error =
    ErrInvalidURL
  | ErrURLNotFound
  | ErrURLExpired
  | ErrUnauthorized
  | ErrCustomAliasUsed
  | ErrInvalidShortCode
  | ErrRandom
  | ErrAttemptsExhausted
  | ErrDatabase db_error
  | Wrapped string svc_error

definition charset :: string where
  "charset = ''abcdefghijklmnopqrstuvwxyzABCDEFGHIJKLMNOPQRSTUVWXYZ0123456789''"

text \<open>The loop body's \<open>charset[int(b)%len(charset)]\<close> for one random byte.\<close>

definition base62_char :: "byte \<Rightarrow> char" where
  "base62_char b = charset ! (unat b mod length charset)"

text \<open>The inner loop of \<open>generateShortCode\<close>: the code of one draw of random bytes.\<close>

definition base62_code :: "byte list \<Rightarrow> string" where
  "base62_code bytes = map base62_char bytes"

text \<open>
  \<open>URLService.generateShortCode\<close>. \<open>read k\<close> is what the \<open>k\<close>-th call of
  \<open>crypto/rand.Read\<close> on the buffer of 7 bytes yields: the 7 bytes, or \<open>None\<close> when the
  source fails. \<open>attempts\<close> counts the attempts made so far; the loop stops at 10. A
  lookup that fails (also on a connection error) counts as "no such code".
\<close>

function generateShortCode_loop ::
  "PostgreSQL \<Rightarrow> (nat \<Rightarrow> byte list option) \<Rightarrow> nat \<Rightarrow> svc_error + string" where
  "generateShortCode_loop p read attempts =
     (if attempts < 10 then
        (case read attempts of
           None \<Rightarrow> Inl (Wrapped ''failed to generate random bytes'' ErrRandom)
         | Some bytes \<Rightarrow>
             (let code = base62_code bytes in
              case GetURLByShortCode p code of
                Inl e \<Rightarrow> Inr code
              | Inr existing \<Rightarrow> generateShortCode_loop p read (attempts + 1)))
      else Inl ErrAttemptsExhausted)"
  by pat_completeness auto
termination
  by (relation "measure (\<lambda>(p, r, attempts). 10 - attempts)") auto

definition generateShortCode ::
  "PostgreSQL \<Rightarrow> (nat \<Rightarrow> byte list option) \<Rightarrow> svc_error + string" where
  "generateShortCode p read = generateShortCode_loop p read 0"

text \<open>
  Counting preimages: all 256 byte values, and those that \<open>base62_char\<close> sends to a
  given character.
\<close>

definition all_bytes :: "byte list" where
  "all_bytes = map of_nat [0..<256]"

definition byte_preimages :: "char \<Rightarrow> byte list" where
  "byte_preimages c = filter (\<lambda>b. base62_char b = c) all_bytes"

section \<open>Cache\<close>

text \<open>
  Redis holds strings. Both services store JSON documents in it; the model keeps a
  stored document in decoded form, one constructor for each shape that is written:
  \<^item> \<open>UrlData\<close>: the JSON object the Shortener writes with \<open>SetJSON\<close> from a
    \<open>map[string]interface{}\<close>, as the association list of its members;
  \<^item> \<open>Entry\<close>: the JSON of a \<open>store.CacheEntry\<close>, which the Resolver writes;
  \<^item> \<open>Text\<close>: any other content (a counter, a marker): not a JSON object.
  A JSON number read back into an \<open>interface{}\<close> is a \<open>float64\<close>; the numbers stored
  here are Unix seconds, far below \<open>2 ^ 53\<close>, so they are kept as integers. \<open>JTime\<close> is a
  JSON string that holds an RFC 3339 timestamp (how \<open>encoding/json\<close> writes a
  \<open>time.Time\<close>); the code never type-asserts such a member.
\<close>

datatype json_val = JStr string | JNum int | JBool bool | JTime time

text \<open>\<open>store.CacheEntry\<close> of the Resolver.\<close>

record CacheEntry =
  entry_ShortCode :: string
  entry_LongURL :: string
  entry_CreatedAt :: time
  entry_ExpiresAt :: "time option"
  entry_ClickCount :: int
  entry_IsActive :: bool

datatype redis_val =
    UrlData "(string \<times> json_val) list"
  | Entry CacheEntry
  | Text string

text \<open>
  \<open>entries\<close> maps a key to its value and the TTL given when it was set; a key that
  Redis has evicted is simply absent. \<open>redis_up\<close> is false while Redis cannot be
  reached: reads then fail and writes are lost.
\<close>

record Redis =
  entries :: "string \<Rightarrow> (redis_val \<times> duration) option"
  redis_up :: bool

definition redis_Get :: "Redis \<Rightarrow> string \<Rightarrow> redis_val option" where
  "redis_Get r k = (if redis_up r then map_option fst (entries r k) else None)"

definition redis_Set :: "Redis \<Rightarrow> string \<Rightarrow> redis_val \<Rightarrow> duration \<Rightarrow> Redis" where
  "redis_Set r k v ttl = (if redis_up r then r\<lparr>entries := (entries r)(k \<mapsto> (v, ttl))\<rparr> else r)"

definition redis_Del :: "Redis \<Rightarrow> string \<Rightarrow> Redis" where
  "redis_Del r k = (if redis_up r then r\<lparr>entries := (entries r)(k := None)\<rparr> else r)"

text \<open>
  What \<open>json.Unmarshal\<close> into a \<open>map[string]interface{}\<close> yields for a stored document
  (\<open>None\<close>: an error), and the members that the JSON of a \<open>CacheEntry\<close> has
  (\<open>expires_at\<close> is tagged \<open>omitempty\<close>).
\<close>

definition entry_members :: "CacheEntry \<Rightarrow> (string \<times> json_val) list" where
  "entry_members e =
     [(''short_code'', JStr (entry_ShortCode e)),
      (''long_url'', JStr (entry_LongURL e)),
      (''created_at'', JTime (entry_CreatedAt e))] @
     (case entry_ExpiresAt e of None \<Rightarrow> [] | Some t \<Rightarrow> [(''expires_at'', JTime t)]) @
     [(''click_count'', JNum (entry_ClickCount e)),
      (''is_active'', JBool (entry_IsActive e))]"

fun unmarshal_map :: "redis_val \<Rightarrow> (string \<times> json_val) list option" where
  "unmarshal_map (UrlData m) = Some m"
| "unmarshal_map (Entry e) = Some (entry_members e)"
| "unmarshal_map (Text s) = None"

text \<open>
  What \<open>json.Unmarshal\<close> into a \<open>CacheEntry\<close> yields. The Shortener's object has a
  number under \<open>created_at\<close>, which does not decode into a \<open>time.Time\<close>: an error.
\<close>

fun unmarshal_CacheEntry :: "redis_val \<Rightarrow> CacheEntry option" where
  "unmarshal_CacheEntry (Entry e) = Some e"
| "unmarshal_CacheEntry (UrlData m) = None"
| "unmarshal_CacheEntry (Text s) = None"

text \<open>\<open>Redis.GetJSON\<close>, \<open>Redis.SetJSON\<close> and \<open>Redis.Delete\<close> of package \<open>cache\<close>.\<close>

definition GetJSON :: "Redis \<Rightarrow> string \<Rightarrow> (string \<times> json_val) list option" where
  "GetJSON r k = (case redis_Get r k of None \<Rightarrow> None | Some v \<Rightarrow> unmarshal_map v)"

definition SetJSON :: "Redis \<Rightarrow> string \<Rightarrow> (string \<times> json_val) list \<Rightarrow> duration \<Rightarrow> Redis" where
  "SetJSON r k m ttl = redis_Set r k (UrlData m) ttl"

definition CacheKey :: "string \<Rightarrow> string \<Rightarrow> string" where
  "CacheKey prefix identifier = ''urlshortener:'' @ prefix @ '':'' @ identifier"

definition URLCacheKey :: "string \<Rightarrow> string" where
  "URLCacheKey shortCode = CacheKey ''url'' shortCode"

text \<open>The state both services work on: the primary store and the cache.\<close>

record sys =
  db :: PostgreSQL
  redis :: Redis

section \<open>Shortener\<close>

record CreateURLRequest =
  req_LongURL :: string
  CustomAlias :: string
  ExpirationTime :: "time option"
  req_UserID :: string
  req_Metadata :: "(string \<times> string) list"

record UpdateURLRequest =
  upd_ShortCode :: string
  upd_UserID :: string
  NewLongURL :: string
  NewExpirationTime :: "time option"
  upd_Metadata :: "(string \<times> string) list option"

text \<open>
  What the code reads of a \<open>url.URL\<close>. \<open>net/url.Parse\<close> itself is a parameter
  \<open>url_Parse\<close> of the functions that call it (\<open>None\<close>: a parse error).
\<close>

record parsed_url =
  Scheme :: string
  Host :: string

text \<open>
  What a call of \<open>ShortenURL\<close> or \<open>GetURL\<close> takes from its environment: the random
  source, \<open>NOW()\<close> of the database at the insert, and the two readings of \<open>time.Now()\<close>
  that compute the TTL (in \<open>Before(time.Now().Add(ttl))\<close> and in \<open>time.Until\<close>).
\<close>

record env =
  url_Parse :: "string \<Rightarrow> parsed_url option"
  rand_Read :: "nat \<Rightarrow> byte list option"
  now_db :: time
  now_before :: time
  now_until :: time

text \<open>\<open>URLService.validateURL\<close>: \<open>None\<close> is the nil error.\<close>

definition validateURL :: "(string \<Rightarrow> parsed_url option) \<Rightarrow> string \<Rightarrow> svc_error option" where
  "validateURL parse longURL =
     (if longURL = [] then Some ErrInvalidURL
      else case parse longURL of
             None \<Rightarrow> Some ErrInvalidURL
           | Some parsedURL \<Rightarrow>
               if Scheme parsedURL \<noteq> ''http'' \<and> Scheme parsedURL \<noteq> ''https'' then Some ErrInvalidURL
               else if Host parsedURL = [] then Some ErrInvalidURL
               else None)"

text \<open>
  The regular expression \<open>^[a-zA-Z0-9]+$\<close> of both \<open>validateShortCode\<close> functions:
  one or more characters, each an ASCII letter or digit.
\<close>

definition alnum :: "char \<Rightarrow> bool" where
  "alnum c = (let n = (of_char c :: nat) in
                (97 \<le> n \<and> n \<le> 122) \<or> (65 \<le> n \<and> n \<le> 90) \<or> (48 \<le> n \<and> n \<le> 57))"

definition matches_alnum :: "string \<Rightarrow> bool" where
  "matches_alnum s = (s \<noteq> [] \<and> list_all alnum s)"

text \<open>\<open>URLService.validateShortCode\<close>.\<close>

definition validateShortCode :: "string \<Rightarrow> svc_error option" where
  "validateShortCode shortCode =
     (if length shortCode < 3 \<or> length shortCode > 10 then Some ErrInvalidShortCode
      else if \<not> matches_alnum shortCode then Some ErrInvalidShortCode
      else None)"

text \<open>
  \<open>PostgreSQL.CreateURL\<close>: the \<open>INSERT\<close> gives \<open>short_code\<close>, \<open>long_url\<close>, \<open>user_id\<close>,
  \<open>expires_at\<close> and \<open>metadata\<close>; the other columns take their defaults, and \<open>id\<close> and
  \<open>created_at\<close> are scanned back into the struct. The \<open>UNIQUE\<close> constraint on
  \<open>short_code\<close> covers every row, active or not; an insert that violates it has
  already taken its value from the sequence. A \<open>TIMESTAMPTZ\<close> column keeps
  microseconds: the row holds \<open>expires_at\<close> cut to the microsecond (the struct keeps
  the value it was given), and \<open>created_at\<close> is the database's \<open>NOW()\<close>, a microsecond
  value. The length limits of the \<open>VARCHAR\<close> columns are not modelled.
\<close>

definition pg_timestamp :: "time \<Rightarrow> time" where
  "pg_timestamp t = t - t mod 1000"

definition CreateURL :: "PostgreSQL \<Rightarrow> URL \<Rightarrow> time \<Rightarrow> (db_error + URL) \<times> PostgreSQL" where
  "CreateURL p url now =
     (if \<not> db_up p then (Inl ErrConnection, p)
      else if list_ex (\<lambda>r. ShortCode r = ShortCode url) (url_mappings p)
        then (Inl ErrUniqueViolation, p\<lparr>next_id := next_id p + 1\<rparr>)
      else
        (let row = \<lparr>ID = next_id p, ShortCode = ShortCode url, LongURL = LongURL url,
                    UserID = UserID url, CreatedAt = pg_timestamp now,
                    ExpiresAt = map_option pg_timestamp (ExpiresAt url),
                    ClickCount = 0, LastAccessed = None, IsActive = True,
                    Metadata = Metadata url\<rparr>
         in (Inr (url\<lparr>ID := next_id p, CreatedAt := pg_timestamp now\<rparr>),
             p\<lparr>url_mappings := url_mappings p @ [row], next_id := next_id p + 1\<rparr>)))"

text \<open>
  \<open>PostgreSQL.DeleteURL\<close>:
  \<open>UPDATE url_mappings SET is_active = false WHERE short_code = $1 AND user_id = $2\<close>;
  an error when no row is affected.
\<close>

definition db_DeleteURL :: "PostgreSQL \<Rightarrow> string \<Rightarrow> string \<Rightarrow> db_error option \<times> PostgreSQL" where
  "db_DeleteURL p shortCode userID =
     (if \<not> db_up p then (Some ErrConnection, p)
      else if \<not> list_ex (\<lambda>r. ShortCode r = shortCode \<and> UserID r = userID) (url_mappings p)
        then (Some ErrNoRowsAffected, p)
      else (None, p\<lparr>url_mappings :=
                       map (\<lambda>r. if ShortCode r = shortCode \<and> UserID r = userID
                                 then r\<lparr>IsActive := False\<rparr> else r) (url_mappings p)\<rparr>))"

text \<open>The zero \<open>time.Time\<close>: 1 January of year 1, 00:00 UTC.\<close>

definition zero_Time :: time where
  "zero_Time = - 62135596800 * Second"

text \<open>\<open>t.Unix()\<close> and \<open>time.Unix(sec, 0)\<close>.\<close>

definition Unix :: "time \<Rightarrow> int" where
  "Unix t = t div Second"

definition time_Unix :: "int \<Rightarrow> time" where
  "time_Unix sec = sec * Second"

text \<open>
  The TTL that \<open>ShortenURL\<close> and \<open>cacheURL\<close> compute: 24 hours, or the time left
  until the expiry when that comes first. \<open>now1\<close> is the clock reading inside
  \<open>Before\<close>, \<open>now2\<close> the one inside \<open>time.Until\<close>.
\<close>

definition cache_ttl :: "time \<Rightarrow> time \<Rightarrow> time option \<Rightarrow> duration" where
  "cache_ttl now1 now2 expiry =
     (case expiry of
        None \<Rightarrow> 24 * Hour
      | Some t \<Rightarrow> if t < now1 + 24 * Hour then t - now2 else 24 * Hour)"

text \<open>The members of the object that \<open>ShortenURL\<close> and \<open>cacheURL\<close> cache.\<close>

definition urlData :: "string \<Rightarrow> string \<Rightarrow> time \<Rightarrow> bool \<Rightarrow> time option \<Rightarrow> (string \<times> json_val) list" where
  "urlData longURL userID createdAt isActive expiry =
     [(''long_url'', JStr longURL),
      (''user_id'', JStr userID),
      (''created_at'', JNum (Unix createdAt)),
      (''is_active'', JBool isActive)] @
     (case expiry of None \<Rightarrow> [] | Some t \<Rightarrow> [(''expires_at'', JNum (Unix t))])"

text \<open>\<open>URLService.ShortenURL\<close>.\<close>

definition ShortenURL :: "env \<Rightarrow> sys \<Rightarrow> CreateURLRequest \<Rightarrow> (svc_error + URL) \<times> sys" where
  "ShortenURL e s req =
     (case validateURL (url_Parse e) (req_LongURL req) of
        Some err \<Rightarrow> (Inl (Wrapped ''URL validation failed'' err), s)
      | None \<Rightarrow>
          (case (if CustomAlias req \<noteq> [] then
                   (case validateShortCode (CustomAlias req) of
                      Some err \<Rightarrow> Inl (Wrapped ''invalid custom alias'' err)
                    | None \<Rightarrow>
                        (case GetURLByShortCode (db s) (CustomAlias req) of
                           Inr existing \<Rightarrow> Inl ErrCustomAliasUsed
                         | Inl _ \<Rightarrow> Inr (CustomAlias req)))
                 else
                   (case generateShortCode (db s) (rand_Read e) of
                      Inl err \<Rightarrow> Inl (Wrapped ''failed to generate short code'' err)
                    | Inr code \<Rightarrow> Inr code)) of
             Inl err \<Rightarrow> (Inl err, s)
           | Inr shortCode \<Rightarrow>
               (let dbURL = \<lparr>ID = 0, ShortCode = shortCode, LongURL = req_LongURL req,
                             UserID = req_UserID req, CreatedAt = zero_Time,
                             ExpiresAt = ExpirationTime req, ClickCount = 0,
                             LastAccessed = None, IsActive = True,
                             Metadata = req_Metadata req\<rparr>
                in case CreateURL (db s) dbURL (now_db e) of
                     (Inl err, p) \<Rightarrow>
                       (Inl (Wrapped ''failed to save URL'' (ErrDatabase err)), s\<lparr>db := p\<rparr>)
                   | (Inr saved, p) \<Rightarrow>
                       (let ttl = cache_ttl (now_before e) (now_until e) (ExpirationTime req);
                            data = urlData (req_LongURL req) (req_UserID req) (CreatedAt saved) True
                                     (ExpirationTime req)
                        in (Inr saved,
                            s\<lparr>db := p, redis := SetJSON (redis s) (URLCacheKey shortCode) data ttl\<rparr>)))))"

text \<open>\<open>URL.CanAccess\<close>.\<close>

definition CanAccess :: "URL \<Rightarrow> string \<Rightarrow> bool" where
  "CanAccess u userID = (UserID u = userID)"

text \<open>
  \<open>URLService.cacheToURL\<close>: a type assertion that fails leaves the zero value, except
  for \<open>long_url\<close>, without which there is no URL.
\<close>

definition cacheToURL :: "string \<Rightarrow> (string \<times> json_val) list \<Rightarrow> URL option" where
  "cacheToURL shortCode data =
     (case map_of data ''long_url'' of
        Some (JStr longURL) \<Rightarrow>
          Some \<lparr>ID = 0, ShortCode = shortCode, LongURL = longURL,
                UserID = (case map_of data ''user_id'' of Some (JStr u) \<Rightarrow> u | _ \<Rightarrow> []),
                CreatedAt = (case map_of data ''created_at'' of
                               Some (JNum n) \<Rightarrow> time_Unix n | _ \<Rightarrow> zero_Time),
                ExpiresAt = (case map_of data ''expires_at'' of
                               Some (JNum n) \<Rightarrow> Some (time_Unix n) | _ \<Rightarrow> None),
                ClickCount = 0, LastAccessed = None,
                IsActive = (case map_of data ''is_active'' of Some (JBool b) \<Rightarrow> b | _ \<Rightarrow> False),
                Metadata = []\<rparr>
      | _ \<Rightarrow> None)"

text \<open>\<open>URLService.cacheURL\<close>.\<close>

definition cacheURL :: "env \<Rightarrow> Redis \<Rightarrow> URL \<Rightarrow> Redis" where
  "cacheURL e r u =
     SetJSON r (URLCacheKey (ShortCode u))
       (urlData (LongURL u) (UserID u) (CreatedAt u) (IsActive u) (ExpiresAt u))
       (cache_ttl (now_before e) (now_until e) (ExpiresAt u))"

text \<open>
  The cache hit of \<open>GetURL\<close>: \<open>GetJSON\<close> finds the key and \<open>cacheToURL\<close> builds a URL
  from the object.
\<close>

definition cached_url :: "Redis \<Rightarrow> string \<Rightarrow> URL option" where
  "cached_url r shortCode =
     (case GetJSON r (URLCacheKey shortCode) of
        None \<Rightarrow> None
      | Some cachedData \<Rightarrow> cacheToURL shortCode cachedData)"

text \<open>\<open>URLService.GetURL\<close>.\<close>

definition GetURL :: "env \<Rightarrow> sys \<Rightarrow> string \<Rightarrow> string \<Rightarrow> (svc_error + URL) \<times> sys" where
  "GetURL e s shortCode userID =
     (case cached_url (redis s) shortCode of
        Some u \<Rightarrow>
          if userID \<noteq> [] \<and> \<not> CanAccess u userID then (Inl ErrUnauthorized, s)
          else (Inr u, s)
      | None \<Rightarrow>
          (case GetURLByShortCode (db s) shortCode of
             Inl err \<Rightarrow> (Inl ErrURLNotFound, s)
           | Inr u \<Rightarrow>
               if userID \<noteq> [] \<and> \<not> CanAccess u userID then (Inl ErrUnauthorized, s)
               else (Inr u, s\<lparr>redis := cacheURL e (redis s) u\<rparr>)))"

text \<open>
  \<open>URLService.UpdateURL\<close>. The database update is a \<open>TODO\<close> in the source: the
  function changes the URL it returns and deletes the Shortener's cache key, and
  writes nothing to the primary store.
\<close>

definition UpdateURL :: "env \<Rightarrow> sys \<Rightarrow> UpdateURLRequest \<Rightarrow> (svc_error + URL) \<times> sys" where
  "UpdateURL e s req =
     (case GetURL e s (upd_ShortCode req) (upd_UserID req) of
        (Inl err, s1) \<Rightarrow> (Inl err, s1)
      | (Inr existingURL, s1) \<Rightarrow>
          (case (if NewLongURL req \<noteq> [] then validateURL (url_Parse e) (NewLongURL req) else None) of
             Some err \<Rightarrow> (Inl (Wrapped ''invalid new URL'' err), s1)
           | None \<Rightarrow>
               (let u1 = (if NewLongURL req \<noteq> [] then existingURL\<lparr>LongURL := NewLongURL req\<rparr>
                          else existingURL);
                    u2 = (case NewExpirationTime req of
                            None \<Rightarrow> u1 | Some t \<Rightarrow> u1\<lparr>ExpiresAt := Some t\<rparr>);
                    u3 = (case upd_Metadata req of
                            None \<Rightarrow> u2 | Some m \<Rightarrow> u2\<lparr>Metadata := m\<rparr>);
                    updated = (NewLongURL req \<noteq> [] \<or> NewExpirationTime req \<noteq> None
                                 \<or> upd_Metadata req \<noteq> None)
                in if \<not> updated then (Inr existingURL, s1)
                   else (Inr u3, s1\<lparr>redis := redis_Del (redis s1) (URLCacheKey (upd_ShortCode req))\<rparr>))))"

text \<open>\<open>URLService.DeleteURL\<close>: \<open>None\<close> is the nil error.\<close>

definition DeleteURL :: "env \<Rightarrow> sys \<Rightarrow> string \<Rightarrow> string \<Rightarrow> svc_error option \<times> sys" where
  "DeleteURL e s shortCode userID =
     (case GetURL e s shortCode userID of
        (Inl err, s1) \<Rightarrow> (Some err, s1)
      | (Inr u, s1) \<Rightarrow>
          (case db_DeleteURL (db s1) shortCode userID of
             (Some err, p) \<Rightarrow> (Some (Wrapped ''failed to delete URL'' (ErrDatabase err)), s1)
           | (None, p) \<Rightarrow>
               (None, s1\<lparr>db := p, redis := redis_Del (redis s1) (URLCacheKey shortCode)\<rparr>)))"

text \<open>
  \<open>PostgreSQL.GetURLsByUserID\<close>:
  \<open>SELECT ... WHERE user_id = $1 AND is_active = true ORDER BY created_at DESC
  LIMIT $2 OFFSET $3\<close>. The statement takes no sort field and no sort direction.
  PostgreSQL rejects a negative \<open>LIMIT\<close> or \<open>OFFSET\<close>. Rows with equal \<open>created_at\<close>
  come in an order SQL leaves open; the model keeps them in insertion order.
\<close>

definition GetURLsByUserID :: "PostgreSQL \<Rightarrow> string \<Rightarrow> int \<Rightarrow> int \<Rightarrow> db_error + URL list" where
  "GetURLsByUserID p userID limit offset =
     (if \<not> db_up p then Inl ErrConnection
      else if limit < 0 \<or> offset < 0 then Inl ErrInvalidLimit
      else Inr (take (nat limit) (drop (nat offset)
                  (sort_key (\<lambda>r. - CreatedAt r)
                     (filter (\<lambda>r. UserID r = userID \<and> IsActive r) (url_mappings p))))))"

text \<open>\<open>domain.GetUserURLsRequest\<close> and \<open>domain.GetUserURLsResponse\<close>; \<open>int32\<close> is a 32-bit word.\<close>

record GetUserURLsRequest =
  list_UserID :: string
  Page :: "32 word"
  PageSize :: "32 word"
  SortBy :: string
  SortOrder :: string

record GetUserURLsResponse =
  URLs :: "URL list"
  TotalCount :: "32 word"
  rsp_Page :: "32 word"
  rsp_PageSize :: "32 word"
  HasNext :: bool

text \<open>
  \<open>URLService.GetUserURLs\<close>. The offset \<open>(Page - 1) * PageSize\<close> is computed in
  \<open>int32\<close> and wraps around. \<open>SortBy\<close> and \<open>SortOrder\<close> are never read.
\<close>

definition GetUserURLs :: "sys \<Rightarrow> GetUserURLsRequest \<Rightarrow> svc_error + GetUserURLsResponse" where
  "GetUserURLs s req =
     (let pageSize = (if sint (PageSize req) \<le> 0 \<or> sint (PageSize req) > 100 then 20 else PageSize req);
          page = (if sint (Page req) \<le> 0 then 1 else Page req);
          offset = (page - 1) * pageSize
      in case GetURLsByUserID (db s) (list_UserID req) (sint (pageSize + 1)) (sint offset) of
           Inl err \<Rightarrow> Inl (Wrapped ''failed to retrieve user URLs'' (ErrDatabase err))
         | Inr dbURLs \<Rightarrow>
             (let hasNext = (int (length dbURLs) > sint pageSize);
                  urls = (if hasNext then take (nat (sint pageSize)) dbURLs else dbURLs)
              in Inr \<lparr>URLs = urls, TotalCount = of_nat (length urls), rsp_Page = page,
                       rsp_PageSize = pageSize, HasNext = hasNext\<rparr>))"

text \<open>
  What claim C6 asks of a page: it is ordered by the requested field (\<open>click_count\<close>,
  else \<open>created_at\<close>) in the requested direction (\<open>asc\<close>, else descending).
\<close>

definition sort_field :: "string \<Rightarrow> URL \<Rightarrow> int" where
  "sort_field sortBy u = (if sortBy = ''click_count'' then ClickCount u else CreatedAt u)"

definition ordered_as_requested :: "string \<Rightarrow> string \<Rightarrow> URL list \<Rightarrow> bool" where
  "ordered_as_requested sortBy sortOrder us =
     (if sortOrder = ''asc'' then sorted (map (sort_field sortBy) us)
      else sorted (rev (map (sort_field sortBy) us)))"

section \<open>Resolver\<close>

text \<open>\<open>strings.HasPrefix\<close> and \<open>strings.Contains\<close>.\<close>

fun HasPrefix :: "string \<Rightarrow> string \<Rightarrow> bool" where
  "HasPrefix s [] = True"
| "HasPrefix [] (p # ps) = False"
| "HasPrefix (c # cs) (p # ps) = (c = p \<and> HasPrefix cs ps)"

fun Contains :: "string \<Rightarrow> string \<Rightarrow> bool" where
  "Contains [] substr = (substr = [])"
| "Contains (c # cs) substr = (HasPrefix (c # cs) substr \<or> Contains cs substr)"

text \<open>\<open>URL.IsExpired\<close> and \<open>URL.IsValidForRedirect\<close>; \<open>now\<close> is the reading of \<open>time.Now()\<close>.\<close>

definition IsExpired :: "time \<Rightarrow> URL \<Rightarrow> bool" where
  "IsExpired now u = (case ExpiresAt u of None \<Rightarrow> False | Some t \<Rightarrow> now > t)"

definition IsValidForRedirect :: "time \<Rightarrow> URL \<Rightarrow> svc_error option" where
  "IsValidForRedirect now u =
     (if \<not> IsActive u then Some ErrURLNotFound
      else if IsExpired now u then Some ErrURLExpired
      else None)"

text \<open>The text of each error, as \<open>err.Error()\<close> gives it.\<close>

fun error_text :: "svc_error \<Rightarrow> string" where
  "error_text ErrInvalidURL = ''invalid URL format''"
| "error_text ErrURLNotFound = ''URL not found''"
| "error_text ErrURLExpired = ''URL has expired''"
| "error_text ErrUnauthorized = ''unauthorized access to URL''"
| "error_text ErrCustomAliasUsed = ''custom alias already exists''"
| "error_text ErrInvalidShortCode = ''invalid short code format''"
| "error_text ErrRandom = ''random source failed''"
| "error_text ErrAttemptsExhausted = ''failed to generate unique short code after 10 attempts''"
| "error_text (ErrDatabase e) = ''database error''"
| "error_text (Wrapped msg e) = msg @ '': '' @ error_text e"

text \<open>The Resolver's cache key of a short code.\<close>

definition resolver_key :: "string \<Rightarrow> string" where
  "resolver_key shortCode = ''url:short:'' @ shortCode"

text \<open>The cache hit: \<open>redis.Get\<close> succeeds and the value decodes into a \<open>CacheEntry\<close>.\<close>

definition cached_entry :: "Redis \<Rightarrow> string \<Rightarrow> CacheEntry option" where
  "cached_entry r cacheKey =
     (case redis_Get r cacheKey of
        None \<Rightarrow> None
      | Some cached \<Rightarrow> unmarshal_CacheEntry cached)"

text \<open>
  The \<open>CacheEntry\<close> that \<open>ResolveURL\<close> builds from the URL it read, and whether
  \<open>json.Marshal\<close> accepts it: \<open>encoding/json\<close> writes a \<open>time.Time\<close> as RFC 3339 and
  fails when its year is outside 0 to 9999 (the year is taken in UTC here). The source
  writes to the cache only when the entry was marshalled.
\<close>

definition entry_of_url :: "URL \<Rightarrow> CacheEntry" where
  "entry_of_url u =
     \<lparr>entry_ShortCode = ShortCode u, entry_LongURL = LongURL u,
      entry_CreatedAt = CreatedAt u, entry_ExpiresAt = ExpiresAt u,
      entry_ClickCount = ClickCount u, entry_IsActive = IsActive u\<rparr>"

definition json_time_ok :: "time \<Rightarrow> bool" where
  "json_time_ok t = (- 62167219200 * Second \<le> t \<and> t < 253402300800 * Second)"

definition marshal_ok :: "CacheEntry \<Rightarrow> bool" where
  "marshal_ok e =
     (json_time_ok (entry_CreatedAt e) \<and>
      (case entry_ExpiresAt e of None \<Rightarrow> True | Some t \<Rightarrow> json_time_ok t))"

text \<open>
  \<open>RedirectStore.ResolveURL\<close>. The error is its message, since the caller tells the
  errors apart by their text. A cache read that fails, or whose value does not decode,
  falls through to the database; any database error is reported as "not found".
\<close>

definition RedirectStore_ResolveURL :: "time \<Rightarrow> sys \<Rightarrow> string \<Rightarrow> (string + URL) \<times> sys" where
  "RedirectStore_ResolveURL now s shortCode =
     (let cacheKey = resolver_key shortCode in
      case cached_entry (redis s) cacheKey of
        Some entry \<Rightarrow>
          if (case entry_ExpiresAt entry of None \<Rightarrow> False | Some t \<Rightarrow> now > t)
          then (Inl ''URL expired'', s\<lparr>redis := redis_Del (redis s) cacheKey\<rparr>)
          else (Inr \<lparr>ID = 0, ShortCode = entry_ShortCode entry, LongURL = entry_LongURL entry,
                      UserID = [], CreatedAt = entry_CreatedAt entry,
                      ExpiresAt = entry_ExpiresAt entry, ClickCount = entry_ClickCount entry,
                      LastAccessed = None, IsActive = entry_IsActive entry, Metadata = []\<rparr>, s)
      | None \<Rightarrow>
          (case GetURLByShortCode (db s) shortCode of
             Inl err \<Rightarrow> (Inl ''short URL not found'', s)
           | Inr dbResult \<Rightarrow>
               (let u = dbResult\<lparr>Metadata := []\<rparr> in
                if (case ExpiresAt u of None \<Rightarrow> False | Some t \<Rightarrow> now > t)
                then (Inl ''URL expired'', s)
                else
                  (let cacheEntry = entry_of_url u
                   in if marshal_ok cacheEntry
                      then (Inr u, s\<lparr>redis := redis_Set (redis s) cacheKey (Entry cacheEntry)
                                                  (24 * Hour)\<rparr>)
                      else (Inr u, s)))))"

text \<open>\<open>RedirectService.validateShortCode\<close>: the message of the error, \<open>None\<close> for nil.\<close>

definition resolver_validateShortCode :: "string \<Rightarrow> string option" where
  "resolver_validateShortCode shortCode =
     (if shortCode = [] then Some ''short code is empty''
      else if length shortCode < 3 \<or> length shortCode > 10
        then Some ''short code must be 3-10 characters long''
      else if \<not> matches_alnum shortCode
        then Some ''short code must contain only alphanumeric characters''
      else None)"

text \<open>
  \<open>RedirectService.validateDestinationURL\<close>. \<open>isPrivateIP\<close> is built from functions of
  package \<open>net\<close> and is a parameter, as \<open>url.Parse\<close> is; \<open>parse_error\<close> is the text of the
  error that \<open>url.Parse\<close> returns for a string it rejects.
\<close>

record netlib =
  net_url_Parse :: "string \<Rightarrow> parsed_url option"
  parse_error :: "string \<Rightarrow> string"
  isPrivateIP :: "string \<Rightarrow> bool"

definition validateDestinationURL :: "netlib \<Rightarrow> string \<Rightarrow> string option" where
  "validateDestinationURL lib longURL =
     (case net_url_Parse lib longURL of
        None \<Rightarrow> Some (concat [''invalid URL format: '', parse_error lib longURL])
      | Some parsedURL \<Rightarrow>
          if Scheme parsedURL \<noteq> ''http'' \<and> Scheme parsedURL \<noteq> ''https''
            then Some ''URL must use http or https scheme''
          else if Host parsedURL = [] then Some ''URL must have a valid host''
          else if isPrivateIP lib (Host parsedURL)
            then Some ''cannot redirect to private IP addresses''
          else if Contains (Host parsedURL) ''localhost'' \<or> Contains (Host parsedURL) ''127.0.0.1''
            then Some ''cannot redirect to localhost''
          else None)"

text \<open>\<open>domain.RedirectResult\<close>.\<close>

record RedirectResult =
  res_LongURL :: string
  Found :: bool
  Expired :: bool
  res_CreatedAt :: time
  res_ExpiresAt :: "time option"
  res_ClickCount :: int
  Error :: string

definition empty_result :: RedirectResult where
  "empty_result = \<lparr>res_LongURL = [], Found = False, Expired = False, res_CreatedAt = zero_Time,
                    res_ExpiresAt = None, res_ClickCount = 0, Error = []\<rparr>"

text \<open>
  \<open>RedirectService.ResolveURL\<close>. \<open>now_store\<close> is the clock reading of the store's
  expiry check, \<open>now_rule\<close> the later one of \<open>IsExpired\<close>. The result is the
  \<open>RedirectResult\<close>, or the message of the error the function returns. On success the
  source also starts a goroutine that increments the click count; it runs after the
  result is returned and is not part of this function.
\<close>

definition RedirectService_ResolveURL ::
  "netlib \<Rightarrow> time \<Rightarrow> time \<Rightarrow> sys \<Rightarrow> string \<Rightarrow> (string + RedirectResult) \<times> sys" where
  "RedirectService_ResolveURL lib now_store now_rule s shortCode =
     (case resolver_validateShortCode shortCode of
        Some msg \<Rightarrow> (Inr (empty_result\<lparr>Found := False, Error := ''invalid short code: '' @ msg\<rparr>), s)
      | None \<Rightarrow>
          (case RedirectStore_ResolveURL now_store s shortCode of
             (Inl err, s1) \<Rightarrow>
               if Contains err ''not found''
                 then (Inr (empty_result\<lparr>Found := False, Error := ''Short URL not found''\<rparr>), s1)
               else if Contains err ''expired''
                 then (Inr (empty_result\<lparr>Found := True, Expired := True,
                                          Error := ''Short URL has expired''\<rparr>), s1)
               else (Inl (''failed to resolve URL: '' @ err), s1)
           | (Inr urlEntity, s1) \<Rightarrow>
               (case IsValidForRedirect now_rule urlEntity of
                  Some err \<Rightarrow>
                    if err = ErrURLExpired
                      then (Inr (empty_result\<lparr>Found := True, Expired := True,
                                               res_LongURL := LongURL urlEntity,
                                               res_CreatedAt := CreatedAt urlEntity,
                                               res_ExpiresAt := ExpiresAt urlEntity,
                                               Error := ''URL has expired''\<rparr>), s1)
                    else (Inr (empty_result\<lparr>Found := False, Error := error_text err\<rparr>), s1)
                | None \<Rightarrow>
                    (case validateDestinationURL lib (LongURL urlEntity) of
                       Some msg \<Rightarrow>
                         (Inr (empty_result\<lparr>Found := False,
                                             Error := ''invalid destination URL: '' @ msg\<rparr>), s1)
                     | None \<Rightarrow>
                         (Inr (empty_result\<lparr>res_LongURL := LongURL urlEntity, Found := True,
                                             Expired := False,
                                             res_CreatedAt := CreatedAt urlEntity,
                                             res_ExpiresAt := ExpiresAt urlEntity,
                                             res_ClickCount := ClickCount urlEntity\<rparr>), s1)))))"

text \<open>
  \<open>pb.ResolveRequest\<close> and \<open>pb.ResolveResponse\<close>, as far as the handler uses them, and
  \<open>RedirectHandler.ResolveURL\<close>. The handler's result is the response it filled, the
  error it returns to the transport (\<open>None\<close> for nil), and whether it started the
  goroutine that publishes the click event.
\<close>

record ResolveResponse =
  rsp_LongUrl :: string
  rsp_Found :: bool
  rsp_Expired :: bool
  rsp_ClickCount :: int
  rsp_Error :: string

definition empty_response :: ResolveResponse where
  "empty_response = \<lparr>rsp_LongUrl = [], rsp_Found = False, rsp_Expired = False,
                      rsp_ClickCount = 0, rsp_Error = []\<rparr>"

record handler_result =
  response :: ResolveResponse
  transport_error :: "string option"
  click_published :: bool

definition RedirectHandler_ResolveURL ::
  "netlib \<Rightarrow> time \<Rightarrow> time \<Rightarrow> sys \<Rightarrow> string \<Rightarrow> handler_result \<times> sys" where
  "RedirectHandler_ResolveURL lib now_store now_rule s shortCode =
     (if shortCode = [] then
        (\<lparr>response = empty_response\<lparr>rsp_Found := False, rsp_Error := ''Short code is required''\<rparr>,
          transport_error = None, click_published = False\<rparr>, s)
      else
        (case RedirectService_ResolveURL lib now_store now_rule s shortCode of
           (Inl err, s1) \<Rightarrow>
             (\<lparr>response = empty_response\<lparr>rsp_Found := False, rsp_Error := ''Internal error: '' @ err\<rparr>,
               transport_error = None, click_published = False\<rparr>, s1)
         | (Inr result, s1) \<Rightarrow>
             (\<lparr>response = \<lparr>rsp_LongUrl = res_LongURL result, rsp_Found = Found result,
                            rsp_Expired = Expired result, rsp_ClickCount = res_ClickCount result,
                            rsp_Error = Error result\<rparr>,
               transport_error = None,
               click_published = (Found result \<and> \<not> Expired result)\<rparr>, s1)))"

section \<open>Analytics: ingesting click events\<close>

text \<open>\<open>domain.ClickEvent\<close> of the analytics service.\<close>

record ClickEvent =
  ev_ShortCode :: string
  ev_LongURL :: string
  ev_ClientIP :: string
  ev_UserAgent :: string
  ev_Referrer :: string
  ev_Timestamp :: time
  ev_SessionID :: string

text \<open>
  A member of the decoded message, as the handler's type assertions see it: a string,
  a number (a \<open>float64\<close>, kept as the \<open>int64\<close> the code converts it to), or a value of
  another type.
\<close>

datatype msg_val = MStr string | MNum int | MOther

text \<open>
  The library calls of the handler are parameters: \<open>json.Unmarshal\<close> into a string,
  \<open>base64.StdEncoding.DecodeString\<close>, and \<open>json.Unmarshal\<close> into a
  \<open>map[string]interface{}\<close>. \<open>None\<close> is an error. A message body is a byte string.
\<close>

record codec =
  json_string :: "string \<Rightarrow> string option"
  base64_decode :: "string \<Rightarrow> string option"
  json_object :: "string \<Rightarrow> (string \<times> msg_val) list option"

text \<open>\<open>getStringFromMap\<close>.\<close>

definition getStringFromMap :: "(string \<times> msg_val) list \<Rightarrow> string \<Rightarrow> string" where
  "getStringFromMap data k = (case map_of data k of Some (MStr str) \<Rightarrow> str | _ \<Rightarrow> [])"

text \<open>
  The first step of the subscription handler: the JSON text of the event. A body that
  starts with a quote character is a JSON string that holds base64.
\<close>

definition message_json :: "codec \<Rightarrow> string \<Rightarrow> string option" where
  "message_json c messageBody =
     (if length messageBody > 0 \<and> hd messageBody = CHR 0x22 then
        (case json_string c messageBody of
           None \<Rightarrow> None
         | Some encodedString \<Rightarrow> base64_decode c encodedString)
      else Some messageBody)"

text \<open>The second step: the \<open>domain.ClickEvent\<close> built from the decoded object.\<close>

definition click_of_data :: "time \<Rightarrow> (string \<times> msg_val) list \<Rightarrow> ClickEvent" where
  "click_of_data now clickData =
     \<lparr>ev_ShortCode = getStringFromMap clickData ''short_code'',
      ev_LongURL = getStringFromMap clickData ''long_url'',
      ev_ClientIP = getStringFromMap clickData ''client_ip'',
      ev_UserAgent = getStringFromMap clickData ''user_agent'',
      ev_Referrer = getStringFromMap clickData ''referrer'',
      ev_Timestamp = (case map_of clickData ''timestamp'' of
                        Some (MNum n) \<Rightarrow> time_Unix n | _ \<Rightarrow> now),
      ev_SessionID = getStringFromMap clickData ''session_id''\<rparr>"

text \<open>
  The handler that \<open>subscribeToClickEvents\<close> registers. \<open>process\<close> is
  \<open>analyticsService.ProcessClick\<close> (its error is logged and dropped). The result is
  the error the handler returns to the broker (\<open>None\<close> for nil) and the event it passed
  to \<open>ProcessClick\<close>, if it got that far.
\<close>

definition click_handler ::
  "codec \<Rightarrow> time \<Rightarrow> (ClickEvent \<Rightarrow> string option) \<Rightarrow> string \<Rightarrow> string option \<times> ClickEvent option" where
  "click_handler c now process messageBody =
     (case message_json c messageBody of
        None \<Rightarrow> (None, None)
      | Some jsonData \<Rightarrow>
          (case json_object c jsonData of
             None \<Rightarrow> (None, None)
           | Some clickData \<Rightarrow>
               (let clickEvent = click_of_data now clickData in
                case process clickEvent of
                  Some err \<Rightarrow> (None, Some clickEvent)
                | None \<Rightarrow> (None, Some clickEvent))))"

section \<open>Analytics: queries\<close>

text \<open>\<open>domain.ClickRecord\<close>: one row of the ClickHouse table \<open>click_analytics\<close>.\<close>

record ClickRecord =
  cr_ShortCode :: string
  cr_LongURL :: string
  cr_ClientIP :: string
  cr_UserAgent :: string
  cr_Referrer :: string
  cr_Country :: string
  cr_City :: string
  cr_DeviceType :: string
  cr_Browser :: string
  cr_OS :: string
  cr_Timestamp :: time
  cr_SessionID :: string
  cr_IsUnique :: bool
  cr_CreatedAt :: time

text \<open>
  The columnar store: the rows of \<open>click_analytics\<close>; \<open>ch_up\<close>, false while a query
  would fail; and \<open>toStartOf\<close>, which evaluates ClickHouse's \<open>toStartOfHour\<close>,
  \<open>toStartOfDay\<close>, \<open>toStartOfWeek\<close> and \<open>toStartOfMonth\<close>, named by the function.
\<close>

record ClickHouse =
  click_analytics :: "ClickRecord list"
  ch_up :: bool
  toStartOf :: "string \<Rightarrow> time \<Rightarrow> time"

datatype ch_error = ChNoRows | ChFailure

record URLStats =
  st_ShortCode :: string
  TotalClicks :: int
  UniqueClicks :: int
  LastClicked :: time
  st_CreatedAt :: time

text \<open>
  \<open>domain.CountryMetrics\<close>, \<open>DeviceMetrics\<close>, \<open>BrowserMetrics\<close> and \<open>ReferrerMetrics\<close>
  differ only in the name of their first field, here \<open>Label\<close>. The percentage is a
  \<open>float64\<close> in the source and an exact fraction here.
\<close>

record Metrics =
  Label :: string
  Clicks :: int
  Percentage :: rat

record TimeSeriesData =
  ts_Timestamp :: time
  ts_Clicks :: int
  ts_UniqueClicks :: int

text \<open>
  The \<open>WHERE\<close> clause shared by the queries of one short code:
  \<open>short_code = ? AND timestamp BETWEEN ? AND ?\<close> (both ends inclusive).
\<close>

definition in_range :: "string \<Rightarrow> time \<Rightarrow> time \<Rightarrow> ClickRecord list \<Rightarrow> ClickRecord list" where
  "in_range shortCode startTime endTime rows =
     filter (\<lambda>r. cr_ShortCode r = shortCode \<and> startTime \<le> cr_Timestamp r \<and> cr_Timestamp r \<le> endTime) rows"

text \<open>\<open>uniq(session_id)\<close>, taken as the exact number of distinct values.\<close>

definition uniq_sessions :: "ClickRecord list \<Rightarrow> int" where
  "uniq_sessions rows = int (length (remdups (map cr_SessionID rows)))"

text \<open>
  \<open>ClickHouseStoreImpl.GetURLStats\<close>. With \<open>GROUP BY short_code\<close> the query has one row
  when some record matches and none otherwise; \<open>row.Scan\<close> then gives \<open>sql.ErrNoRows\<close>,
  which the function turns into zero statistics.
\<close>

definition query_URLStats :: "ClickHouse \<Rightarrow> string \<Rightarrow> time \<Rightarrow> time \<Rightarrow> ch_error + URLStats" where
  "query_URLStats ch shortCode startTime endTime =
     (if \<not> ch_up ch then Inl ChFailure
      else case in_range shortCode startTime endTime (click_analytics ch) of
             [] \<Rightarrow> Inl ChNoRows
           | r # rs \<Rightarrow>
               Inr \<lparr>st_ShortCode = shortCode, TotalClicks = int (length (r # rs)),
                     UniqueClicks = uniq_sessions (r # rs),
                     LastClicked = fold max (map cr_Timestamp rs) (cr_Timestamp r),
                     st_CreatedAt = fold min (map cr_CreatedAt rs) (cr_CreatedAt r)\<rparr>)"

definition store_GetURLStats :: "ClickHouse \<Rightarrow> string \<Rightarrow> time \<Rightarrow> time \<Rightarrow> string + URLStats" where
  "store_GetURLStats ch shortCode startTime endTime =
     (case query_URLStats ch shortCode startTime endTime of
        Inl err \<Rightarrow>
          if err = ChNoRows
            then Inr \<lparr>st_ShortCode = shortCode, TotalClicks = 0, UniqueClicks = 0,
                       LastClicked = zero_Time, st_CreatedAt = zero_Time\<rparr>
          else Inl ''failed to get URL stats from ClickHouse''
      | Inr stats \<Rightarrow> Inr stats)"

text \<open>
  \<open>GetTimeSeriesData\<close>: one row per bucket, ordered by the bucket's start. The time
  filter is read as a filter on the column \<open>timestamp\<close>.
\<close>

definition intervalFunc :: "string \<Rightarrow> string" where
  "intervalFunc granularity =
     (if granularity = ''hour'' then ''toStartOfHour''
      else if granularity = ''day'' then ''toStartOfDay''
      else if granularity = ''week'' then ''toStartOfWeek''
      else if granularity = ''month'' then ''toStartOfMonth''
      else ''toStartOfHour'')"

definition store_GetTimeSeriesData ::
  "ClickHouse \<Rightarrow> string \<Rightarrow> time \<Rightarrow> time \<Rightarrow> string \<Rightarrow> string + TimeSeriesData list" where
  "store_GetTimeSeriesData ch shortCode startTime endTime granularity =
     (if \<not> ch_up ch then Inl ''failed to get time series data from ClickHouse''
      else
        (let rows = in_range shortCode startTime endTime (click_analytics ch);
             bucket = (\<lambda>r. toStartOf ch (intervalFunc granularity) (cr_Timestamp r));
             starts = sort (remdups (map bucket rows))
         in Inr (map (\<lambda>t. \<lparr>ts_Timestamp = t,
                             ts_Clicks = int (length (filter (\<lambda>r. bucket r = t) rows)),
                             ts_UniqueClicks = uniq_sessions (filter (\<lambda>r. bucket r = t) rows)\<rparr>)
                   starts)))"

text \<open>
  The four breakdown queries: group the matching rows by a column, count each group,
  order by the count (largest first) and keep at most \<open>limit\<close> groups. The percentage
  is taken over all matching rows of the query.
\<close>

definition breakdown :: "(ClickRecord \<Rightarrow> string) \<Rightarrow> ClickRecord list \<Rightarrow> Metrics list" where
  "breakdown col rows =
     sort_key (\<lambda>m. - Clicks m)
       (map (\<lambda>k. \<lparr>Label = k, Clicks = int (count_list (map col rows) k),
                    Percentage = of_nat (count_list (map col rows) k) * 100 / of_nat (length rows)\<rparr>)
          (remdups (map col rows)))"

definition store_GetCountryStats :: "ClickHouse \<Rightarrow> string \<Rightarrow> time \<Rightarrow> time \<Rightarrow> string + Metrics list" where
  "store_GetCountryStats ch shortCode startTime endTime =
     (if \<not> ch_up ch then Inl ''failed to get country stats from ClickHouse''
      else Inr (take 10 (breakdown cr_Country
                  (filter (\<lambda>r. cr_Country r \<noteq> [])
                     (in_range shortCode startTime endTime (click_analytics ch))))))"

definition store_GetDeviceStats :: "ClickHouse \<Rightarrow> string \<Rightarrow> time \<Rightarrow> time \<Rightarrow> string + Metrics list" where
  "store_GetDeviceStats ch shortCode startTime endTime =
     (if \<not> ch_up ch then Inl ''failed to get device stats from ClickHouse''
      else Inr (breakdown cr_DeviceType
                  (filter (\<lambda>r. cr_DeviceType r \<noteq> [])
                     (in_range shortCode startTime endTime (click_analytics ch)))))"

definition store_GetBrowserStats :: "ClickHouse \<Rightarrow> string \<Rightarrow> time \<Rightarrow> time \<Rightarrow> string + Metrics list" where
  "store_GetBrowserStats ch shortCode startTime endTime =
     (if \<not> ch_up ch then Inl ''failed to get browser stats from ClickHouse''
      else Inr (take 10 (breakdown cr_Browser
                  (filter (\<lambda>r. cr_Browser r \<noteq> [])
                     (in_range shortCode startTime endTime (click_analytics ch))))))"

definition store_GetReferrerStats :: "ClickHouse \<Rightarrow> string \<Rightarrow> time \<Rightarrow> time \<Rightarrow> string + Metrics list" where
  "store_GetReferrerStats ch shortCode startTime endTime =
     (if \<not> ch_up ch then Inl ''failed to get referrer stats from ClickHouse''
      else Inr (take 10 (breakdown (\<lambda>r. if cr_Referrer r = [] then ''Direct'' else cr_Referrer r)
                  (in_range shortCode startTime endTime (click_analytics ch)))))"

text \<open>\<open>domain.URLStatsReport\<close> and \<open>AnalyticsServiceImpl.GetURLStats\<close>.\<close>

record URLStatsReport =
  rep_URLStats :: URLStats
  TimeSeries :: "TimeSeriesData list"
  CountryStats :: "Metrics list"
  DeviceStats :: "Metrics list"
  BrowserStats :: "Metrics list"
  ReferrerStats :: "Metrics list"

definition service_GetURLStats ::
  "ClickHouse \<Rightarrow> string \<Rightarrow> time \<Rightarrow> time \<Rightarrow> string \<Rightarrow> string + URLStatsReport" where
  "service_GetURLStats ch shortCode startTime endTime granularity =
     (case store_GetURLStats ch shortCode startTime endTime of
        Inl err \<Rightarrow> Inl (''failed to get URL stats: '' @ err)
      | Inr urlStats \<Rightarrow>
     (case store_GetTimeSeriesData ch shortCode startTime endTime granularity of
        Inl err \<Rightarrow> Inl (''failed to get time series data: '' @ err)
      | Inr timeSeries \<Rightarrow>
     (case store_GetCountryStats ch shortCode startTime endTime of
        Inl err \<Rightarrow> Inl (''failed to get country stats: '' @ err)
      | Inr countryStats \<Rightarrow>
     (case store_GetDeviceStats ch shortCode startTime endTime of
        Inl err \<Rightarrow> Inl (''failed to get device stats: '' @ err)
      | Inr deviceStats \<Rightarrow>
     (case store_GetBrowserStats ch shortCode startTime endTime of
        Inl err \<Rightarrow> Inl (''failed to get browser stats: '' @ err)
      | Inr browserStats \<Rightarrow>
     (case store_GetReferrerStats ch shortCode startTime endTime of
        Inl err \<Rightarrow> Inl (''failed to get referrer stats: '' @ err)
      | Inr referrerStats \<Rightarrow>
          Inr \<lparr>rep_URLStats = urlStats, TimeSeries = timeSeries, CountryStats = countryStats,
                DeviceStats = deviceStats, BrowserStats = browserStats,
                ReferrerStats = referrerStats\<rparr>))))))"

text \<open>
  \<open>pb.StatsRequest\<close>, \<open>pb.StatsResponse\<close> and \<open>AnalyticsHandler.GetURLStats\<close>.
  \<open>default_start\<close> is the value of \<open>time.Now().AddDate(0, 0, -30)\<close> and \<open>default_end\<close>
  that of \<open>time.Now()\<close> at the call. The handler copies the totals and sets every
  array of the response to nil; its error is \<open>None\<close> for nil.
\<close>

record StatsRequest =
  sreq_ShortCode :: string
  StartTime :: int
  EndTime :: int
  Granularity :: string

record StatsResponse =
  srsp_ShortCode :: string
  srsp_TotalClicks :: int
  srsp_UniqueClicks :: int
  srsp_TimeSeries :: "TimeSeriesData list"
  srsp_CountryStats :: "Metrics list"
  srsp_DeviceStats :: "Metrics list"
  srsp_BrowserStats :: "Metrics list"
  srsp_ReferrerStats :: "Metrics list"

definition empty_stats_response :: StatsResponse where
  "empty_stats_response =
     \<lparr>srsp_ShortCode = [], srsp_TotalClicks = 0, srsp_UniqueClicks = 0, srsp_TimeSeries = [],
      srsp_CountryStats = [], srsp_DeviceStats = [], srsp_BrowserStats = [],
      srsp_ReferrerStats = []\<rparr>"

definition effective_start :: "time \<Rightarrow> StatsRequest \<Rightarrow> time" where
  "effective_start default_start req =
     (if StartTime req > 0 then time_Unix (StartTime req) else default_start)"

definition effective_end :: "time \<Rightarrow> StatsRequest \<Rightarrow> time" where
  "effective_end default_end req =
     (if EndTime req > 0 then time_Unix (EndTime req) else default_end)"

definition handler_GetURLStats ::
  "ClickHouse \<Rightarrow> time \<Rightarrow> time \<Rightarrow> StatsRequest \<Rightarrow> StatsResponse \<times> string option" where
  "handler_GetURLStats ch default_start default_end req =
     (let startTime = effective_start default_start req;
          endTime = effective_end default_end req;
          granularity = (if Granularity req = [] then ''day'' else Granularity req)
      in case service_GetURLStats ch (sreq_ShortCode req) startTime endTime granularity of
           Inl err \<Rightarrow> (empty_stats_response, Some err)
         | Inr statsReport \<Rightarrow>
             (empty_stats_response
                \<lparr>srsp_ShortCode := sreq_ShortCode req,
                 srsp_TotalClicks := TotalClicks (rep_URLStats statsReport),
                 srsp_UniqueClicks := UniqueClicks (rep_URLStats statsReport),
                 srsp_TimeSeries := [], srsp_CountryStats := [], srsp_DeviceStats := [],
                 srsp_BrowserStats := [], srsp_ReferrerStats := []\<rparr>, None))"

section \<open>Example states\<close>

text \<open>
  Concrete inputs on which the theorems below are run. \<open>ex_parse\<close> stands for
  \<open>url.Parse\<close> on the three URLs used; \<open>ex_env\<close> has a random source that fails, so
  that only requests with a custom alias get a code. The clock readings are all
  \<open>1000\<close> seconds after the epoch.
\<close>

definition ex_parse :: "string \<Rightarrow> parsed_url option" where
  "ex_parse u =
     (if u = ''https://example.com/a'' then Some \<lparr>Scheme = ''https'', Host = ''example.com''\<rparr>
      else if u = ''https://example.com/b'' then Some \<lparr>Scheme = ''https'', Host = ''example.com''\<rparr>
      else if u = ''ftp://example.com/c'' then Some \<lparr>Scheme = ''ftp'', Host = ''example.com''\<rparr>
      else None)"

definition ex_env :: env where
  "ex_env = \<lparr>url_Parse = ex_parse, rand_Read = (\<lambda>k. None), now_db = 1000 * Second,
             now_before = 1000 * Second, now_until = 1000 * Second\<rparr>"

definition ex_lib :: netlib where
  "ex_lib = \<lparr>net_url_Parse = ex_parse, parse_error = (\<lambda>u. ''parse error''),
             isPrivateIP = (\<lambda>h. False)\<rparr>"

definition empty_sys :: sys where
  "empty_sys = \<lparr>db = \<lparr>url_mappings = [], db_up = True, next_id = 1\<rparr>,
                redis = \<lparr>entries = (\<lambda>k. None), redis_up = True\<rparr>\<rparr>"

definition ex_create :: "string \<Rightarrow> string \<Rightarrow> string \<Rightarrow> time option \<Rightarrow> CreateURLRequest" where
  "ex_create longURL userID customAlias expiry =
     \<lparr>req_LongURL = longURL, CustomAlias = customAlias, ExpirationTime = expiry,
      req_UserID = userID, req_Metadata = []\<rparr>"

text \<open>The state after user \<open>u1\<close> has shortened \<open>https://example.com/a\<close> as \<open>golang\<close>.\<close>

definition ex_sys :: sys where
  "ex_sys = snd (ShortenURL ex_env empty_sys (ex_create ''https://example.com/a'' ''u1'' ''golang'' None))"


text \<open>
  The same with an expiry at second 2000, and that state after a resolution at second
  1500 has filled the Resolver's cache.
\<close>

definition ex_expiring :: sys where
  "ex_expiring = snd (ShortenURL ex_env empty_sys
      (ex_create ''https://example.com/a'' ''u1'' ''golang'' (Some (2000 * Second))))"

definition ex_expiring_cached :: sys where
  "ex_expiring_cached =
     snd (RedirectService_ResolveURL ex_lib (1500 * Second) (1500 * Second) ex_expiring ''golang'')"

text \<open>The state after \<open>u1\<close> has deleted \<open>golang\<close> again.\<close>

definition ex_deleted :: sys where
  "ex_deleted = snd (DeleteURL ex_env ex_sys ''golang'' ''u1'')"

text \<open>An update of \<open>golang\<close> by its owner to a new long URL.\<close>

definition ex_update :: UpdateURLRequest where
  "ex_update = \<lparr>upd_ShortCode = ''golang'', upd_UserID = ''u1'',
                 NewLongURL = ''https://example.com/b'', NewExpirationTime = None,
                 upd_Metadata = None\<rparr>"

text \<open>
  Two mappings of \<open>u1\<close>, nothing cached: \<open>aaa\<close> is older and has more clicks than
  \<open>bbb\<close>.
\<close>

definition ex_listing :: sys where
  "ex_listing = empty_sys\<lparr>db := \<lparr>url_mappings =
      [\<lparr>ID = 1, ShortCode = ''aaa'', LongURL = ''https://example.com/a'', UserID = ''u1'',
        CreatedAt = 100 * Second, ExpiresAt = None, ClickCount = 5, LastAccessed = None,
        IsActive = True, Metadata = []\<rparr>,
       \<lparr>ID = 2, ShortCode = ''bbb'', LongURL = ''https://example.com/b'', UserID = ''u1'',
        CreatedAt = 200 * Second, ExpiresAt = None, ClickCount = 1, LastAccessed = None,
        IsActive = True, Metadata = []\<rparr>], db_up = True, next_id = 3\<rparr>\<rparr>"

definition ex_list_request :: "string \<Rightarrow> string \<Rightarrow> GetUserURLsRequest" where
  "ex_list_request sortBy sortOrder =
     \<lparr>list_UserID = ''u1'', Page = 1, PageSize = 20, SortBy = sortBy, SortOrder = sortOrder\<rparr>"

text \<open>
  What a caller reads of a result: of a resolution the long URL, \<open>found\<close> and
  \<open>expired\<close>; of a listing its page.
\<close>

definition outcome :: "(string + RedirectResult) \<Rightarrow> (string \<times> bool \<times> bool) option" where
  "outcome x = (case x of Inl err \<Rightarrow> None | Inr r \<Rightarrow> Some (res_LongURL r, Found r, Expired r))"

definition listed :: "svc_error + GetUserURLsResponse \<Rightarrow> URL list" where
  "listed x = (case x of Inl err \<Rightarrow> [] | Inr rsp \<Rightarrow> URLs rsp)"

text \<open>
  A click message in both encodings: the event \<open>{"short_code":"abc"}\<close>, its base64
  text, and that text as a JSON string. \<open>ex_codec\<close> is what the three library calls
  return on them; on everything else the example lets them fail.
\<close>

definition ex_raw :: string where
  "ex_raw = [CHR ''{'', CHR 0x22] @ ''short_code'' @ [CHR 0x22, CHR '':'', CHR 0x22] @ ''abc'' @
            [CHR 0x22, CHR ''}'']"

definition ex_b64 :: string where
  "ex_b64 = ''eyJzaG9ydF9jb2RlIjoiYWJjIn0=''"

definition ex_wrapped :: string where
  "ex_wrapped = [CHR 0x22] @ ex_b64 @ [CHR 0x22]"

definition ex_codec :: codec where
  "ex_codec =
     \<lparr>json_string = (\<lambda>b. if b = ex_wrapped then Some ex_b64 else None),
      base64_decode = (\<lambda>t. if t = ex_b64 then Some ex_raw else None),
      json_object = (\<lambda>b. if b = ex_raw then Some [(''short_code'', MStr ''abc'')] else None)\<rparr>"

text \<open>A click table with one record of \<open>golang\<close>, at second 5000.\<close>

definition ex_clicks :: ClickHouse where
  "ex_clicks =
     \<lparr>click_analytics =
        [\<lparr>cr_ShortCode = ''golang'', cr_LongURL = ''https://example.com/a'',
          cr_ClientIP = ''203.0.113.7'', cr_UserAgent = ''curl'', cr_Referrer = [],
          cr_Country = ''Unknown'', cr_City = ''Unknown'', cr_DeviceType = ''Desktop'',
          cr_Browser = ''curl 8'', cr_OS = ''Other '', cr_Timestamp = 5000 * Second,
          cr_SessionID = ''203.0.113.7-16'', cr_IsUnique = True,
          cr_CreatedAt = 5000 * Second\<rparr>],
      ch_up = True,
      toStartOf = (\<lambda>f t. t - t mod (3600 * Second))\<rparr>"

definition ex_stats_request :: "int \<Rightarrow> int \<Rightarrow> StatsRequest" where
  "ex_stats_request startTime endTime =
     \<lparr>sreq_ShortCode = ''golang'', StartTime = startTime, EndTime = endTime, Granularity = []\<rparr>"

section \<open>Facts about short-code minting\<close>

lemma length_charset: "length charset = 62"
  by (simp add: charset_def)

lemma distinct_charset: "distinct charset"
  by (simp add: charset_def)

lemma unat_byte_less: "unat (b::byte) < 256"
  using unsigned_less [of b, where ?'a = nat] by simp

lemma set_all_bytes: "set all_bytes = UNIV"
proof -
  have "b \<in> set all_bytes" for b :: byte
  proof -
    have "of_nat (unat b) = b" by simp
    then have "b \<in> of_nat ` {0..<256}"
      using unat_byte_less [of b] by (metis atLeastLessThan_iff image_eqI zero_le)
    then show ?thesis
      unfolding all_bytes_def by simp
  qed
  then show ?thesis by auto
qed

lemma distinct_all_bytes: "distinct all_bytes"
proof -
  have "inj_on (of_nat :: nat \<Rightarrow> byte) {0..<256}"
  proof (rule inj_onI)
    fix x y :: nat
    assume "x \<in> {0..<256}" "y \<in> {0..<256}" "(of_nat x :: byte) = of_nat y"
    then have "unat (of_nat x :: byte) = unat (of_nat y :: byte)" by simp
    moreover have "unat (of_nat x :: byte) = x"
      using \<open>x \<in> {0..<256}\<close> by (simp add: unat_of_nat take_bit_nat_eq_self)
    moreover have "unat (of_nat y :: byte) = y"
      using \<open>y \<in> {0..<256}\<close> by (simp add: unat_of_nat take_bit_nat_eq_self)
    ultimately show "x = y" by simp
  qed
  then show ?thesis
    unfolding all_bytes_def by (simp add: distinct_map)
qed

lemma residues_below_256:
  assumes "i < 62"
  shows "{n::nat. n < 256 \<and> n mod 62 = i} =
           (if i < 8 then {i, i + 62, i + 124, i + 186, i + 248}
            else {i, i + 62, i + 124, i + 186})"
proof -
  have fwd: "n = i \<or> n = i + 62 \<or> n = i + 124 \<or> n = i + 186 \<or> (n = i + 248 \<and> i < 8)"
    if "n < 256" "n mod 62 = i" for n :: nat
  proof -
    define k where "k = n div 62"
    have n: "n = 62 * k + i"
      using that(2) mult_div_mod_eq [of 62 n] by (simp add: k_def)
    have "k < 5"
      using that(1) n by linarith
    then have "k = 0 \<or> k = 1 \<or> k = 2 \<or> k = 3 \<or> k = 4" by linarith
    then show ?thesis using n that(1) by auto
  qed
  have bwd: "(i + 62 * k) mod 62 = i" for k :: nat
    using assms by simp
  have m: "(i + 62) mod 62 = i" "(i + 124) mod 62 = i" "(i + 186) mod 62 = i" "(i + 248) mod 62 = i"
    using bwd [of 1] bwd [of 2] bwd [of 3] bwd [of 4] by simp_all
  have m0: "i mod 62 = i" using assms by simp
  show ?thesis
  proof (cases "i < 8")
    case True
    have "{n::nat. n < 256 \<and> n mod 62 = i} = {i, i + 62, i + 124, i + 186, i + 248}"
    proof (intro set_eqI iffI)
      fix n assume "n \<in> {n::nat. n < 256 \<and> n mod 62 = i}"
      then show "n \<in> {i, i + 62, i + 124, i + 186, i + 248}" using fwd [of n] by blast
    next
      fix n assume "n \<in> {i, i + 62, i + 124, i + 186, i + 248}"
      then consider "n = i" | "n = i + 62" | "n = i + 124" | "n = i + 186" | "n = i + 248" by blast
      then show "n \<in> {n::nat. n < 256 \<and> n mod 62 = i}"
        using True m m0 by cases simp_all
    qed
    then show ?thesis using True by simp
  next
    case False
    have "{n::nat. n < 256 \<and> n mod 62 = i} = {i, i + 62, i + 124, i + 186}"
    proof (intro set_eqI iffI)
      fix n assume "n \<in> {n::nat. n < 256 \<and> n mod 62 = i}"
      then show "n \<in> {i, i + 62, i + 124, i + 186}" using fwd [of n] False by blast
    next
      fix n assume "n \<in> {i, i + 62, i + 124, i + 186}"
      then consider "n = i" | "n = i + 62" | "n = i + 124" | "n = i + 186" by blast
      then show "n \<in> {n::nat. n < 256 \<and> n mod 62 = i}"
        using assms m m0 by cases simp_all
    qed
    then show ?thesis using False by simp
  qed
qed


lemma base62_char_eq_iff:
  assumes "i < 62"
  shows "base62_char b = charset ! i \<longleftrightarrow> unat b mod 62 = i"
proof -
  have "unat b mod 62 < length charset"
    by (simp add: length_charset)
  then show ?thesis
    using assms distinct_charset
    by (simp add: base62_char_def length_charset nth_eq_iff_index_eq)
qed

lemma unat_image_residues:
  "unat ` {b::byte. unat b mod 62 = i} = {n::nat. n < 256 \<and> n mod 62 = i}"
proof (intro set_eqI iffI)
  fix n assume "n \<in> unat ` {b::byte. unat b mod 62 = i}"
  then show "n \<in> {n::nat. n < 256 \<and> n mod 62 = i}"
    using unat_byte_less by auto
next
  fix n assume "n \<in> {n::nat. n < 256 \<and> n mod 62 = i}"
  then have n: "n < 256" "n mod 62 = i" by simp_all
  have "unat (of_nat n :: byte) = n"
    using n(1) by (simp add: unat_of_nat take_bit_nat_eq_self)
  then have "unat (of_nat n :: byte) mod 62 = i" using n(2) by simp
  then have "(of_nat n :: byte) \<in> {b::byte. unat b mod 62 = i}" by simp
  then show "n \<in> unat ` {b::byte. unat b mod 62 = i}"
    using \<open>unat (of_nat n :: byte) = n\<close> by (metis image_eqI)
qed

lemma card_base62_preimage:
  assumes "i < 62"
  shows "card {b. base62_char b = charset ! i} = (if i < 8 then 5 else 4)"
proof -
  have "{b. base62_char b = charset ! i} = {b::byte. unat b mod 62 = i}"
    using base62_char_eq_iff [OF assms] by simp
  moreover have "card {b::byte. unat b mod 62 = i} = card (unat ` {b::byte. unat b mod 62 = i})"
    by (rule card_image [symmetric]) (auto simp: inj_on_def intro: word_unat_eq_iff [THEN iffD2])
  moreover have "card {n::nat. n < 256 \<and> n mod 62 = i} = (if i < 8 then 5 else 4)"
    by (simp add: residues_below_256 [OF assms])
  ultimately show ?thesis
    by (simp add: unat_image_residues)
qed


lemma card_byte_preimages:
  "card {b. base62_char b = c} = length (byte_preimages c)"
proof -
  have "{b. base62_char b = c} = set (byte_preimages c)"
    by (auto simp: byte_preimages_def set_all_bytes)
  moreover have "distinct (byte_preimages c)"
    by (simp add: byte_preimages_def distinct_all_bytes)
  ultimately show ?thesis by (simp add: distinct_card)
qed

lemma card_map_preimage:
  fixes f :: "'a::finite \<Rightarrow> 'b"
  shows "finite {xs. map f xs = ys} \<and>
         card {xs. map f xs = ys} = prod_list (map (\<lambda>y. card {x. f x = y}) ys)"
proof (induction ys)
  case Nil
  then show ?case by simp
next
  case (Cons y ys)
  let ?A = "{x. f x = y}" and ?B = "{xs. map f xs = ys}"
  have eq: "{xs. map f xs = y # ys} = (\<lambda>(x, xs). x # xs) ` (?A \<times> ?B)"
    by (auto simp: map_eq_Cons_conv)
  have inj: "inj_on (\<lambda>(x, xs). x # xs) (?A \<times> ?B)"
    by (auto simp: inj_on_def)
  have fin: "finite (?A \<times> ?B)"
    using Cons.IH by simp
  have "card {xs. map f xs = y # ys} = card (?A \<times> ?B)"
    unfolding eq by (rule card_image [OF inj])
  also have "\<dots> = card ?A * card ?B"
    by (rule card_cartesian_product)
  finally show ?case
    using Cons.IH fin eq by simp
qed

lemma preimage_count_char:
  assumes "ch \<in> set charset"
  shows "card {b. base62_char b = ch} = (if ch \<in> set (take 8 charset) then 5 else 4)"
proof -
  obtain i where i: "i < 62" "ch = charset ! i"
    using assms by (metis in_set_conv_nth length_charset)
  have "ch \<in> set (take 8 charset) \<longleftrightarrow> i < 8"
  proof
    assume "ch \<in> set (take 8 charset)"
    then obtain j where j: "j < 8" "take 8 charset ! j = ch"
      by (auto simp: in_set_conv_nth length_charset)
    then have "charset ! j = charset ! i" using i by simp
    then have "j = i"
      using distinct_charset i j by (simp add: nth_eq_iff_index_eq length_charset)
    then show "i < 8" using j by simp
  next
    assume "i < 8"
    then have "i < length (take 8 charset)" by (simp add: length_charset)
    then have "take 8 charset ! i \<in> set (take 8 charset)" by (rule nth_mem)
    then show "ch \<in> set (take 8 charset)"
      using \<open>i < 8\<close> i by simp
  qed
  then show ?thesis
    using card_base62_preimage [OF i(1)] i(2) by simp
qed


lemma prod_list_5_4:
  "prod_list (map (\<lambda>y. if P y then 5 else (4::nat)) ys) =
     5 ^ length (filter P ys) * 4 ^ length (filter (\<lambda>y. \<not> P y) ys)"
  by (induction ys) simp_all

text \<open>
  A code that \<open>generateShortCode\<close> returns is the base-62 code of one of its (at most
  ten) draws, and no active mapping has it.
\<close>

lemma generateShortCode_loop_result:
  "generateShortCode_loop p read n = Inr code \<Longrightarrow>
     \<exists>k bytes. n \<le> k \<and> k < 10 \<and> read k = Some bytes \<and> code = base62_code bytes \<and>
       (\<forall>u. GetURLByShortCode p code \<noteq> Inr u)"
proof (induction p read n rule: generateShortCode_loop.induct)
  case (1 p read attempts)
  show ?case
  proof (cases "attempts < 10")
    case False
    with "1.prems" show ?thesis
      by (subst (asm) generateShortCode_loop.simps) simp
  next
    case True
    note lt = this
    show ?thesis
    proof (cases "read attempts")
      case None
      with "1.prems" lt show ?thesis
        by (subst (asm) generateShortCode_loop.simps) simp
    next
      case (Some bytes)
      show ?thesis
      proof (cases "GetURLByShortCode p (base62_code bytes)")
        case (Inl err)
        with "1.prems" lt Some have "code = base62_code bytes"
          by (subst (asm) generateShortCode_loop.simps) (simp add: Let_def)
        with lt Some Inl show ?thesis
          by (intro exI [of _ attempts] exI [of _ bytes]) auto
      next
        case (Inr existing)
        with "1.prems" lt Some have "generateShortCode_loop p read (attempts + 1) = Inr code"
          by (subst (asm) generateShortCode_loop.simps) (simp add: Let_def)
        from "1.IH" [OF lt Some refl Inr this]
        obtain k b where "attempts + 1 \<le> k" "k < 10" "read k = Some b" "code = base62_code b"
            "\<forall>u. GetURLByShortCode p code \<noteq> Inr u"
          by blast
        then show ?thesis
          by (intro exI [of _ k] exI [of _ b]) auto
      qed
    qed
  qed
qed

lemma length_base62_code: "length (base62_code bytes) = length bytes"
  by (simp add: base62_code_def)

lemma base62_char_in_charset: "base62_char b \<in> set charset"
  by (simp add: base62_char_def length_charset)

subsection \<open>C4: the distribution of minted codes\<close>

text \<open>
  The claim says that every 7-character code has the same number of 7-byte preimages,
  equivalently that every alphabet character has equally many byte preimages under
  \<open>b mod 62\<close>. It does not hold: 256 is not a multiple of 62, so \<open>a\<close> (index 0) has the
  five preimages 0, 62, 124, 186 and 248, while \<open>9\<close> (index 61) has only the four
  preimages 61, 123, 185 and 247.
\<close>

theorem base62_not_uniform_counterexample:
  "length (byte_preimages (CHR ''a'')) = 5 \<and> length (byte_preimages (CHR ''9'')) = 4"
proof -
  have "charset ! 0 = CHR ''a''" "charset ! 61 = CHR ''9''"
    by (simp_all add: charset_def)
  then show ?thesis
    using card_base62_preimage [of 0] card_base62_preimage [of 61]
    by (simp add: card_byte_preimages)
qed

text \<open>
  Claim C4, as amended: the generator maps each random byte \<open>b\<close> to
  \<open>charset[b mod 62]\<close>; since \<open>256 = 4 * 62 + 8\<close>, each of the first eight characters
  of the alphabet (\<open>a\<close> to \<open>h\<close>) has 5 byte preimages and each of the other 54 has 4.
  A code over the alphabet with \<open>k\<close> characters among \<open>a\<close> to \<open>h\<close> and \<open>m\<close> others is
  therefore produced by exactly \<open>5 ^ k * 4 ^ m\<close> byte strings (of its own length): every
  code is reachable, but the codes are not equally likely.
\<close>

theorem base62_code_preimages:
  assumes "set code \<subseteq> set charset"
  shows "card {bytes. base62_code bytes = code} =
           5 ^ length (filter (\<lambda>ch. ch \<in> set (take 8 charset)) code) *
           4 ^ length (filter (\<lambda>ch. ch \<notin> set (take 8 charset)) code)"
proof -
  have "card {bytes. base62_code bytes = code} =
          prod_list (map (\<lambda>ch. card {b. base62_char b = ch}) code)"
    unfolding base62_code_def using card_map_preimage [of base62_char code] by simp
  also have "\<dots> = prod_list (map (\<lambda>ch. if ch \<in> set (take 8 charset) then 5 else (4::nat)) code)"
    using assms by (intro arg_cong [where f = prod_list] map_cong refl preimage_count_char) auto
  finally show ?thesis
    by (simp add: prod_list_5_4)
qed

theorem base62_code_preimages_witness:
  "card {bytes. base62_code bytes = ''aaaaaaa''} = 78125 \<and>
   card {bytes. base62_code bytes = ''9999999''} = 16384 \<and>
   card {bytes. base62_code bytes = ''ab12XYZ''} = 25600"
  using base62_code_preimages [of "''aaaaaaa''"] base62_code_preimages [of "''9999999''"]
    base62_code_preimages [of "''ab12XYZ''"]
  by (simp add: charset_def)

section \<open>Facts about the Resolver\<close>

subsection \<open>C1: expired mappings\<close>

text \<open>
  The claim includes the boundary \<open>expires_at = now\<close>. Every expiry check of the code
  is \<open>time.Now().After(expires_at)\<close>, which is strict: at the boundary the mapping
  still resolves, on the primary-store path (\<open>ex_expiring\<close>, nothing cached) and on the
  cache-hit path (\<open>ex_expiring_cached\<close>). Both states hold the mapping \<open>golang\<close> with its
  expiry at second 2000, and both resolutions read the clock at second 2000.
\<close>

theorem expiry_boundary_counterexample:
  "map ExpiresAt (url_mappings (db ex_expiring)) = [Some (2000 * Second)] \<and>
   cached_entry (redis ex_expiring) (resolver_key ''golang'') = None \<and>
   outcome (fst (RedirectService_ResolveURL ex_lib (2000 * Second) (2000 * Second)
                   ex_expiring ''golang''))
     = Some (''https://example.com/a'', True, False) \<and>
   map_option entry_ExpiresAt (cached_entry (redis ex_expiring_cached) (resolver_key ''golang''))
     = Some (Some (2000 * Second)) \<and>
   outcome (fst (RedirectService_ResolveURL ex_lib (2000 * Second) (2000 * Second)
                   ex_expiring_cached ''golang''))
     = Some (''https://example.com/a'', True, False)"
  by code_simp

text \<open>\<open>IsExpired\<close> is strict as well: a URL is expired from the first instant after its expiry.\<close>

lemma IsExpired_strict:
  "IsExpired now u \<longleftrightarrow> (\<exists>t. ExpiresAt u = Some t \<and> t < now)"
  by (auto simp: IsExpired_def split: option.splits)

lemma store_expired:
  assumes "(cached_entry (redis s) (resolver_key c) = Some e \<and> entry_ExpiresAt e = Some t) \<or>
           (cached_entry (redis s) (resolver_key c) = None \<and>
              GetURLByShortCode (db s) c = Inr u \<and> ExpiresAt u = Some t)"
    and "t < now"
  shows "fst (RedirectStore_ResolveURL now s c) = Inl ''URL expired''"
  using assms
  by (auto simp: RedirectStore_ResolveURL_def Let_def)

lemma Contains_expired:
  "\<not> Contains ''URL expired'' ''not found''" "Contains ''URL expired'' ''expired''"
  by simp_all

text \<open>
  Claim C1, as amended: for every mapping with a well-formed short code whose
  \<open>expires_at\<close> is set and lies strictly before \<open>now\<close> (the clock reading of the store's
  expiry check), Resolve returns Expired (\<open>found = true\<close>, \<open>expired = true\<close>, no long
  URL) and so never a successful redirect, on the cache-hit path (the cached entry
  carries the expiry) and on the primary-store path (nothing cached, the active row
  carries it). At \<open>expires_at = now\<close> the mapping still resolves.
\<close>

theorem expired_mapping_resolves_to_Expired:
  assumes "resolver_validateShortCode c = None"
    and "(cached_entry (redis s) (resolver_key c) = Some e \<and> entry_ExpiresAt e = Some t) \<or>
         (cached_entry (redis s) (resolver_key c) = None \<and>
            GetURLByShortCode (db s) c = Inr u \<and> ExpiresAt u = Some t)"
    and "t < now_store"
  shows "fst (RedirectService_ResolveURL lib now_store now_rule s c) =
           Inr (empty_result\<lparr>Found := True, Expired := True, Error := ''Short URL has expired''\<rparr>)"
proof -
  obtain s1 where "RedirectStore_ResolveURL now_store s c = (Inl ''URL expired'', s1)"
    using store_expired [OF assms(2,3)] by (cases "RedirectStore_ResolveURL now_store s c") auto
  then show ?thesis
    using assms(1) Contains_expired
    by (simp add: RedirectService_ResolveURL_def)
qed

theorem expired_mapping_resolves_to_Expired_witness:
  "outcome (fst (RedirectService_ResolveURL ex_lib (2000 * Second + 1) (2000 * Second + 1)
                   ex_expiring ''golang'')) = Some ([], True, True) \<and>
   outcome (fst (RedirectService_ResolveURL ex_lib (2000 * Second + 1) (2000 * Second + 1)
                   ex_expiring_cached ''golang'')) = Some ([], True, True)"
proof -
  let ?u = "\<lparr>ID = 1, ShortCode = ''golang'', LongURL = ''https://example.com/a'', UserID = ''u1'',
             CreatedAt = 1000 * Second, ExpiresAt = Some (2000 * Second), ClickCount = 0,
             LastAccessed = None, IsActive = True, Metadata = []\<rparr>"
  let ?e = "\<lparr>entry_ShortCode = ''golang'', entry_LongURL = ''https://example.com/a'',
             entry_CreatedAt = 1000 * Second, entry_ExpiresAt = Some (2000 * Second),
             entry_ClickCount = 0, entry_IsActive = True\<rparr>"
  have valid: "resolver_validateShortCode ''golang'' = None"
    by code_simp
  have late: "2000 * Second < 2000 * Second + 1"
    by simp
  have miss: "cached_entry (redis ex_expiring) (resolver_key ''golang'') = None \<and>
              GetURLByShortCode (db ex_expiring) ''golang'' = Inr ?u \<and>
              ExpiresAt ?u = Some (2000 * Second)"
    by code_simp
  have hit: "cached_entry (redis ex_expiring_cached) (resolver_key ''golang'') = Some ?e \<and>
             entry_ExpiresAt ?e = Some (2000 * Second)"
    by code_simp
  show ?thesis
    using valid late miss hit
      expired_mapping_resolves_to_Expired [where c = "''golang''" and s = ex_expiring and e = ?e
        and u = ?u and t = "2000 * Second" and now_store = "2000 * Second + 1"
        and now_rule = "2000 * Second + 1" and lib = ex_lib]
      expired_mapping_resolves_to_Expired [where c = "''golang''" and s = ex_expiring_cached
        and e = ?e and u = ?u and t = "2000 * Second" and now_store = "2000 * Second + 1"
        and now_rule = "2000 * Second + 1" and lib = ex_lib]
    by (simp add: outcome_def empty_result_def)
qed

subsection \<open>C5: the TTL of the Resolver's write-through\<close>

text \<open>
  The claim gives the Resolver's write-through the TTL \<open>min(24h, expires_at - now)\<close>.
  In \<open>ex_expiring\<close> the mapping expires 1000 seconds after the resolution at second
  1000: the Resolver caches it for 24 hours all the same, while the Shortener cached
  its own projection for 1000 seconds.
\<close>

theorem resolver_ttl_counterexample:
  "map ExpiresAt (url_mappings (db ex_expiring)) = [Some (2000 * Second)] \<and>
   cached_entry (redis ex_expiring) (resolver_key ''golang'') = None \<and>
   map_option snd
     (entries (redis (snd (RedirectStore_ResolveURL (1000 * Second) ex_expiring ''golang'')))
        (resolver_key ''golang'')) = Some (24 * Hour) \<and>
   min (24 * Hour) (2000 * Second - 1000 * Second) = 1000 * Second \<and>
   map_option snd (entries (redis ex_expiring) (URLCacheKey ''golang'')) = Some (1000 * Second)"
  by code_simp

lemma cache_ttl_min:
  "cache_ttl now now expiry =
     (case expiry of None \<Rightarrow> 24 * Hour | Some t \<Rightarrow> min (24 * Hour) (t - now))"
  by (auto simp: cache_ttl_def split: option.splits)

text \<open>
  What the write-through leaves behind is caught at the next cache hit: a hit on an
  entry whose expiry lies before the clock reading returns "URL expired" and deletes
  the key.
\<close>

lemma expired_hit_deletes:
  assumes "cached_entry (redis s) (resolver_key c) = Some e"
    and "entry_ExpiresAt e = Some t" and "t < later"
  shows "fst (RedirectStore_ResolveURL later s c) = Inl ''URL expired'' \<and>
         entries (redis (snd (RedirectStore_ResolveURL later s c))) (resolver_key c) = None"
proof -
  have up: "redis_up (redis s)"
    using assms(1) by (auto simp: cached_entry_def redis_Get_def split: if_splits)
  show ?thesis
    using assms up by (simp add: RedirectStore_ResolveURL_def Let_def redis_Del_def)
qed

text \<open>
  Claim C5, as amended: for every Resolve that misses the cache and finds a
  non-expired active mapping in the primary store (with the cache reachable), the
  Resolver writes the mapping's projection to the cache with a fixed TTL of 24 hours,
  whatever \<open>expires_at\<close> is, provided the projection can be marshalled (\<open>created_at\<close> and
  \<open>expires_at\<close> within the years 0 to 9999); otherwise it leaves the cache as it is.
  An entry so written that outlives its mapping's expiry is rejected and deleted at the
  next cache hit: a Resolve at any clock reading after \<open>expires_at\<close> returns
  "URL expired" and removes the key. The rule \<open>min(24h, expires_at - now)\<close> (24 hours
  when \<open>expires_at\<close> is absent) is the Shortener's, for its own cache key, when both of
  its clock readings are \<open>now\<close>.
\<close>

theorem resolver_write_through_ttl:
  assumes "cached_entry (redis s) (resolver_key c) = None"
    and "GetURLByShortCode (db s) c = Inr u"
    and "\<not> (case ExpiresAt u of None \<Rightarrow> False | Some t \<Rightarrow> now > t)"
    and "redis_up (redis s)"
  shows "(if marshal_ok (entry_of_url u)
          then entries (redis (snd (RedirectStore_ResolveURL now s c))) (resolver_key c) =
                 Some (Entry (entry_of_url u), 24 * Hour)
          else redis (snd (RedirectStore_ResolveURL now s c)) = redis s) \<and>
         (marshal_ok (entry_of_url u) \<and> ExpiresAt u = Some t \<and> t < later \<longrightarrow>
            fst (RedirectStore_ResolveURL later (snd (RedirectStore_ResolveURL now s c)) c) =
              Inl ''URL expired'' \<and>
            entries (redis (snd (RedirectStore_ResolveURL later
                                   (snd (RedirectStore_ResolveURL now s c)) c)))
              (resolver_key c) = None) \<and>
         cache_ttl now now (ExpiresAt u) =
           (case ExpiresAt u of None \<Rightarrow> 24 * Hour | Some t \<Rightarrow> min (24 * Hour) (t - now))"
proof -
  let ?s' = "snd (RedirectStore_ResolveURL now s c)"
  have same: "entry_of_url (u\<lparr>Metadata := []\<rparr>) = entry_of_url u"
    by (simp add: entry_of_url_def)
  have stored: "marshal_ok (entry_of_url u) \<Longrightarrow>
      ?s' = s\<lparr>redis := redis_Set (redis s) (resolver_key c) (Entry (entry_of_url u)) (24 * Hour)\<rparr>"
    using assms(1-3) by (simp add: RedirectStore_ResolveURL_def Let_def same)
  have kept: "\<not> marshal_ok (entry_of_url u) \<Longrightarrow> ?s' = s"
    using assms(1-3) by (simp add: RedirectStore_ResolveURL_def Let_def same)
  have first: "if marshal_ok (entry_of_url u)
          then entries (redis ?s') (resolver_key c) = Some (Entry (entry_of_url u), 24 * Hour)
          else redis ?s' = redis s"
    using stored kept assms(4) by (simp add: redis_Set_def)
  have second: "fst (RedirectStore_ResolveURL later ?s' c) = Inl ''URL expired'' \<and>
      entries (redis (snd (RedirectStore_ResolveURL later ?s' c))) (resolver_key c) = None"
    if m: "marshal_ok (entry_of_url u)" and t: "ExpiresAt u = Some t" "t < later"
  proof -
    have "cached_entry (redis ?s') (resolver_key c) = Some (entry_of_url u)"
      using stored [OF m] assms(4) by (simp add: cached_entry_def redis_Get_def redis_Set_def)
    moreover have "entry_ExpiresAt (entry_of_url u) = Some t"
      using t(1) by (simp add: entry_of_url_def)
    ultimately show ?thesis
      using t(2) by (rule expired_hit_deletes)
  qed
  show ?thesis
    using first second by (simp add: cache_ttl_min)
qed

theorem resolver_write_through_ttl_witness:
  "map_option snd
     (entries (redis (snd (RedirectStore_ResolveURL (1000 * Second) ex_expiring ''golang'')))
        (resolver_key ''golang'')) = Some (24 * Hour) \<and>
   fst (RedirectStore_ResolveURL (2000 * Second + 1)
          (snd (RedirectStore_ResolveURL (1000 * Second) ex_expiring ''golang'')) ''golang'') =
     Inl ''URL expired'' \<and>
   entries (redis (snd (RedirectStore_ResolveURL (2000 * Second + 1)
          (snd (RedirectStore_ResolveURL (1000 * Second) ex_expiring ''golang'')) ''golang'')))
     (resolver_key ''golang'') = None \<and>
   cache_ttl (1000 * Second) (1000 * Second) (Some (2000 * Second)) = 1000 * Second"
proof -
  let ?u = "\<lparr>ID = 1, ShortCode = ''golang'', LongURL = ''https://example.com/a'', UserID = ''u1'',
             CreatedAt = 1000 * Second, ExpiresAt = Some (2000 * Second), ClickCount = 0,
             LastAccessed = None, IsActive = True, Metadata = []\<rparr>"
  have miss: "cached_entry (redis ex_expiring) (resolver_key ''golang'') = None"
    by code_simp
  have row: "GetURLByShortCode (db ex_expiring) ''golang'' = Inr ?u"
    by code_simp
  have fresh: "\<not> (case ExpiresAt ?u of None \<Rightarrow> False | Some t \<Rightarrow> 1000 * Second > t)"
    by (simp add: Second_def)
  have up: "redis_up (redis ex_expiring)"
    by code_simp
  have ok: "marshal_ok (entry_of_url ?u)"
    by code_simp
  have expiry: "ExpiresAt ?u = Some (2000 * Second)"
    by simp
  have late: "2000 * Second < 2000 * Second + 1"
    by simp
  show ?thesis
    using resolver_write_through_ttl [OF miss row fresh up, where t = "2000 * Second"
        and later = "2000 * Second + 1"] ok expiry late
    by (simp add: Second_def Hour_def)
qed

subsection \<open>C10: the handler reports every failure in the response\<close>

lemma IsValidForRedirect_cases:
  "IsValidForRedirect now u = Some err \<Longrightarrow> err = ErrURLNotFound \<or> err = ErrURLExpired"
  by (auto simp: IsValidForRedirect_def split: if_splits)

lemma service_result_in_band:
  assumes "RedirectService_ResolveURL lib n1 n2 s c = (Inr r, s')"
  shows "Error r = [] \<longleftrightarrow> Found r \<and> \<not> Expired r"
  using assms
  by (auto simp: RedirectService_ResolveURL_def empty_result_def
           split: option.splits sum.splits prod.splits if_splits
           dest!: IsValidForRedirect_cases)

text \<open>
  Claim C10: for every request, in every state of the stores (also with the database
  or the cache unreachable) and at every clock reading, \<open>RedirectHandler.ResolveURL\<close>
  returns a nil error to the transport; what went wrong is in the response: its
  \<open>error\<close> field is empty exactly when the response is a successful redirect
  (\<open>found\<close> and not \<open>expired\<close>).
\<close>

theorem resolve_handler_never_fails:
  "transport_error (fst (RedirectHandler_ResolveURL lib n1 n2 s c)) = None \<and>
   (rsp_Error (response (fst (RedirectHandler_ResolveURL lib n1 n2 s c))) = [] \<longleftrightarrow>
      rsp_Found (response (fst (RedirectHandler_ResolveURL lib n1 n2 s c))) \<and>
      \<not> rsp_Expired (response (fst (RedirectHandler_ResolveURL lib n1 n2 s c))))"
proof (cases "c = []")
  case True
  then show ?thesis
    by (simp add: RedirectHandler_ResolveURL_def empty_response_def)
next
  case False
  obtain res s' where rs: "RedirectService_ResolveURL lib n1 n2 s c = (res, s')"
    by (cases "RedirectService_ResolveURL lib n1 n2 s c")
  show ?thesis
  proof (cases res)
    case (Inl err)
    with rs False show ?thesis
      by (simp add: RedirectHandler_ResolveURL_def empty_response_def)
  next
    case (Inr r)
    with rs have "Error r = [] \<longleftrightarrow> Found r \<and> \<not> Expired r"
      using service_result_in_band by blast
    with rs Inr False show ?thesis
      by (simp add: RedirectHandler_ResolveURL_def)
  qed
qed

theorem resolve_handler_never_fails_witness:
  "transport_error (fst (RedirectHandler_ResolveURL ex_lib (1000 * Second) (1000 * Second)
                           (ex_sys\<lparr>db := (db ex_sys)\<lparr>db_up := False\<rparr>\<rparr>) ''nosuch'')) = None \<and>
   rsp_Found (response (fst (RedirectHandler_ResolveURL ex_lib (1000 * Second) (1000 * Second)
                           (ex_sys\<lparr>db := (db ex_sys)\<lparr>db_up := False\<rparr>\<rparr>) ''nosuch''))) = False \<and>
   rsp_Error (response (fst (RedirectHandler_ResolveURL ex_lib (1000 * Second) (1000 * Second)
                           (ex_sys\<lparr>db := (db ex_sys)\<lparr>db_up := False\<rparr>\<rparr>) ''nosuch''))) \<noteq> []"
proof -
  have "rsp_Found (response (fst (RedirectHandler_ResolveURL ex_lib (1000 * Second) (1000 * Second)
                           (ex_sys\<lparr>db := (db ex_sys)\<lparr>db_up := False\<rparr>\<rparr>) ''nosuch''))) = False"
    by code_simp
  then show ?thesis
    using resolve_handler_never_fails [of ex_lib "1000 * Second" "1000 * Second"
        "ex_sys\<lparr>db := (db ex_sys)\<lparr>db_up := False\<rparr>\<rparr>" "''nosuch''"]
    by simp
qed

subsection \<open>C2: an update is not seen by the Resolver\<close>

lemma keys_differ: "URLCacheKey a \<noteq> resolver_key b"
  by (simp add: URLCacheKey_def CacheKey_def resolver_key_def)

lemma redis_Set_other:
  "k' \<noteq> k \<Longrightarrow> entries (redis_Set r k v ttl) k' = entries r k'"
  "redis_up (redis_Set r k v ttl) = redis_up r"
  by (simp_all add: redis_Set_def)

lemma redis_Del_other:
  "k' \<noteq> k \<Longrightarrow> entries (redis_Del r k) k' = entries r k'"
  "redis_up (redis_Del r k) = redis_up r"
  by (simp_all add: redis_Del_def)

lemma GetURL_state:
  "db (snd (GetURL e s c uid)) = db s"
  "redis_up (redis (snd (GetURL e s c uid))) = redis_up (redis s)"
  "entries (redis (snd (GetURL e s c uid))) (resolver_key k) = entries (redis s) (resolver_key k)"
  using keys_differ [of _ k, symmetric]
  by (auto simp: GetURL_def cacheURL_def SetJSON_def redis_Set_other
           split: option.splits sum.splits)

text \<open>
  \<open>UpdateURL\<close> leaves the primary store as it is, and in the cache it touches only keys
  of the Shortener (\<open>urlshortener:url:...\<close>), never a key of the Resolver
  (\<open>url:short:...\<close>).
\<close>

lemma UpdateURL_state:
  "db (snd (UpdateURL e s req)) = db s"
  "redis_up (redis (snd (UpdateURL e s req))) = redis_up (redis s)"
  "entries (redis (snd (UpdateURL e s req))) (resolver_key k) = entries (redis s) (resolver_key k)"
proof -
  obtain r s1 where g: "GetURL e s (upd_ShortCode req) (upd_UserID req) = (r, s1)"
    by (cases "GetURL e s (upd_ShortCode req) (upd_UserID req)")
  have s1: "db s1 = db s" "redis_up (redis s1) = redis_up (redis s)"
      "entries (redis s1) (resolver_key k) = entries (redis s) (resolver_key k)"
    using GetURL_state(1) [of e s "upd_ShortCode req" "upd_UserID req"]
      GetURL_state(2) [of e s "upd_ShortCode req" "upd_UserID req"]
      GetURL_state(3) [of e s "upd_ShortCode req" "upd_UserID req" k] g by simp_all
  show "db (snd (UpdateURL e s req)) = db s"
    using g s1 by (auto simp: UpdateURL_def Let_def split: sum.splits option.splits)
  show "redis_up (redis (snd (UpdateURL e s req))) = redis_up (redis s)"
    using g s1 by (auto simp: UpdateURL_def Let_def redis_Del_other split: sum.splits option.splits)
  show "entries (redis (snd (UpdateURL e s req))) (resolver_key k) = entries (redis s) (resolver_key k)"
    using g s1 keys_differ [of "upd_ShortCode req" k, symmetric]
    by (auto simp: UpdateURL_def Let_def redis_Del_other split: sum.splits option.splits)
qed

lemma resolve_depends_on:
  assumes "db s' = db s" "redis_up (redis s') = redis_up (redis s)"
    "entries (redis s') (resolver_key c) = entries (redis s) (resolver_key c)"
  shows "fst (RedirectService_ResolveURL lib n1 n2 s' c) = fst (RedirectService_ResolveURL lib n1 n2 s c)"
proof -
  have "cached_entry (redis s') (resolver_key c) = cached_entry (redis s) (resolver_key c)"
    using assms by (simp add: cached_entry_def redis_Get_def)
  then have "fst (RedirectStore_ResolveURL n1 s' c) = fst (RedirectStore_ResolveURL n1 s c)"
    using assms(1) by (auto simp: RedirectStore_ResolveURL_def Let_def split: option.splits sum.splits)
  then show ?thesis
    by (auto simp: RedirectService_ResolveURL_def split: option.splits sum.splits prod.splits)
qed

text \<open>Whatever the update was, a resolution after it returns what it returned before.\<close>

lemma UpdateURL_invisible:
  "fst (RedirectService_ResolveURL lib n1 n2 (snd (UpdateURL e s req)) c) =
   fst (RedirectService_ResolveURL lib n1 n2 s c)"
  by (rule resolve_depends_on) (rule UpdateURL_state)+

text \<open>
  Claim C2 says that after a successful \<open>Update(c, o, {long_url: u'})\<close> a Resolve of
  \<open>c\<close> returns \<open>u'\<close>. The code at that input: in \<open>ex_sys\<close> the owner \<open>u1\<close> updates \<open>golang\<close>
  from \<open>https://example.com/a\<close> to \<open>https://example.com/b\<close>; the update succeeds and
  returns the new URL, and the Resolve that follows still redirects to the old one.
\<close>

theorem update_then_resolve_returns_old_url:
  "map_sum id LongURL (fst (UpdateURL ex_env ex_sys ex_update)) = Inr ''https://example.com/b'' \<and>
   outcome (fst (RedirectService_ResolveURL ex_lib (1000 * Second) (1000 * Second)
                   (snd (UpdateURL ex_env ex_sys ex_update)) ''golang''))
     = Some (''https://example.com/a'', True, False)"
  by code_simp

theorem update_then_resolve_returns_old_url_witness:
  "outcome (fst (RedirectService_ResolveURL ex_lib (1000 * Second) (1000 * Second)
                   (snd (UpdateURL ex_env ex_sys ex_update)) ''golang''))
     = Some (''https://example.com/a'', True, False)"
  using update_then_resolve_returns_old_url by simp

section \<open>Facts about the Shortener\<close>

subsection \<open>Minted codes are well-formed\<close>

lemma charset_alnum: "list_all alnum charset"
  by code_simp

lemma alnum_codes: "list_all (\<lambda>n. char_of (n::nat) \<in> set charset) ([97..<123] @ [65..<91] @ [48..<58])"
  by code_simp

lemma alnum_charset: "alnum c \<longleftrightarrow> c \<in> set charset"
proof
  assume "c \<in> set charset"
  then show "alnum c" using charset_alnum by (simp add: list_all_iff)
next
  assume a: "alnum c"
  define n where "n = (of_char c :: nat)"
  have "n \<in> {97..<123} \<union> {65..<91} \<union> {48..<58}"
    using a by (auto simp: alnum_def n_def Let_def)
  then have "n \<in> set ([97..<123] @ [65..<91] @ [48..<58])"
    by (simp only: set_append set_upt Un_assoc)
  then have "char_of n \<in> set charset"
    using alnum_codes by (simp only: list_all_iff)
  then show "c \<in> set charset" by (simp add: n_def)
qed

text \<open>
  With 7 bytes from every draw, a minted code has 7 characters and passes
  \<open>validateShortCode\<close>.
\<close>

lemma generated_code_valid:
  assumes "generateShortCode p read = Inr code"
    and "\<forall>k bytes. read k = Some bytes \<longrightarrow> length bytes = 7"
  shows "validateShortCode code = None \<and> length code = 7"
proof -
  obtain k bytes where kb: "read k = Some bytes" "code = base62_code bytes"
    using generateShortCode_loop_result [of p read 0 code] assms(1)
    by (auto simp: generateShortCode_def)
  then have len: "length code = 7" using assms(2) by (simp add: length_base62_code)
  have "list_all alnum code"
    using kb(2) by (simp add: base62_code_def list_all_iff alnum_charset base62_char_in_charset)
  then show ?thesis using len by (simp add: validateShortCode_def matches_alnum_def) auto
qed

subsection \<open>C3: custom aliases\<close>

text \<open>
  \<open>validateShortCode\<close> accepts exactly the strings of the pattern
  \<open>^[A-Za-z0-9]{3,10}$\<close>.
\<close>

lemma validateShortCode_pattern:
  "validateShortCode c = None \<longleftrightarrow> 3 \<le> length c \<and> length c \<le> 10 \<and> list_all alnum c"
  by (auto simp: validateShortCode_def matches_alnum_def)

text \<open>
  With a valid long URL, an alias outside the pattern fails with the invalid-input
  error, and an alias of an active mapping fails with \<open>ErrCustomAliasUsed\<close>.
\<close>

lemma ShortenURL_alias_invalid:
  assumes "validateURL (url_Parse e) (req_LongURL req) = None"
    and "CustomAlias req \<noteq> []" and "validateShortCode (CustomAlias req) \<noteq> None"
  shows "ShortenURL e s req = (Inl (Wrapped ''invalid custom alias'' ErrInvalidShortCode), s)"
  using assms by (auto simp: ShortenURL_def validateShortCode_def split: if_splits)

lemma ShortenURL_alias_active:
  assumes "validateURL (url_Parse e) (req_LongURL req) = None"
    and "CustomAlias req \<noteq> []" and "validateShortCode (CustomAlias req) = None"
    and "GetURLByShortCode (db s) (CustomAlias req) = Inr u"
  shows "ShortenURL e s req = (Inl ErrCustomAliasUsed, s)"
  using assms by (simp add: ShortenURL_def)

text \<open>
  An alias whose only mapping is soft-deleted passes the availability check, which
  looks at active rows only, and then fails at the insert: the error is the wrapped
  database error, not \<open>ErrCustomAliasUsed\<close>.
\<close>

lemma ShortenURL_alias_deleted:
  assumes "validateURL (url_Parse e) (req_LongURL req) = None"
    and "CustomAlias req \<noteq> []" and "validateShortCode (CustomAlias req) = None"
    and "db_up (db s)"
    and "list_ex (\<lambda>r. ShortCode r = CustomAlias req) (url_mappings (db s))"
    and "\<not> list_ex (\<lambda>r. ShortCode r = CustomAlias req \<and> IsActive r) (url_mappings (db s))"
  shows "fst (ShortenURL e s req) =
           Inl (Wrapped ''failed to save URL'' (ErrDatabase ErrUniqueViolation))"
proof -
  have "find (\<lambda>r. ShortCode r = CustomAlias req \<and> IsActive r) (url_mappings (db s)) = None"
    using assms(6) by (simp add: find_None_iff list_ex_iff)
  then have "GetURLByShortCode (db s) (CustomAlias req) = Inl ErrNoRows"
    using assms(4) by (simp add: GetURLByShortCode_def)
  then show ?thesis
    using assms by (simp add: ShortenURL_def CreateURL_def)
qed

text \<open>
  Claim C3 says that a Shorten with a custom alias fails with AliasTaken when a
  mapping with that short code exists, active or soft-deleted. The code at a
  soft-deleted mapping: \<open>u1\<close> has shortened a URL as \<open>golang\<close> and deleted it again
  (\<open>ex_deleted\<close>); the row is still there, inactive. A Shorten of \<open>u2\<close> with the alias
  \<open>golang\<close> then fails with "failed to save URL" around the unique-constraint
  violation, which is not \<open>ErrCustomAliasUsed\<close>.
\<close>

theorem alias_of_deleted_mapping_is_not_AliasTaken:
  "fst (DeleteURL ex_env ex_sys ''golang'' ''u1'') = None \<and>
   map (\<lambda>r. (ShortCode r, IsActive r)) (url_mappings (db ex_deleted)) = [(''golang'', False)] \<and>
   fst (ShortenURL ex_env ex_deleted (ex_create ''https://example.com/b'' ''u2'' ''golang'' None))
     = Inl (Wrapped ''failed to save URL'' (ErrDatabase ErrUniqueViolation))"
  by code_simp

theorem alias_of_deleted_mapping_is_not_AliasTaken_witness:
  "fst (ShortenURL ex_env ex_deleted (ex_create ''https://example.com/b'' ''u2'' ''golang'' None))
     \<noteq> Inl ErrCustomAliasUsed"
  using alias_of_deleted_mapping_is_not_AliasTaken by simp

subsection \<open>C6: the order of a listing\<close>

text \<open>The sort field and the sort direction of a request have no effect on its result.\<close>

lemma GetUserURLs_ignores_sort:
  "GetUserURLs s (req\<lparr>SortBy := sortBy, SortOrder := sortOrder\<rparr>) = GetUserURLs s req"
  by (simp add: GetUserURLs_def)

text \<open>
  Claim C6 says that the page is ordered by the requested field in the requested
  direction. The code on \<open>ex_listing\<close>, where \<open>aaa\<close> is older than \<open>bbb\<close> and has 5 clicks
  against 1: asked for \<open>click_count\<close>, descending, the page is \<open>bbb\<close> before \<open>aaa\<close>, which
  is the order of \<open>created_at\<close>, descending; asked for \<open>created_at\<close>, ascending, it is the
  same page.
\<close>

theorem list_by_click_count_is_by_created_at:
  "map (\<lambda>u. (ShortCode u, ClickCount u))
      (listed (GetUserURLs ex_listing (ex_list_request ''click_count'' ''desc'')))
     = [(''bbb'', 1), (''aaa'', 5)] \<and>
   \<not> ordered_as_requested ''click_count'' ''desc''
      (listed (GetUserURLs ex_listing (ex_list_request ''click_count'' ''desc''))) \<and>
   \<not> ordered_as_requested ''created_at'' ''asc''
      (listed (GetUserURLs ex_listing (ex_list_request ''created_at'' ''asc'')))"
  by code_simp

theorem list_by_click_count_is_by_created_at_witness:
  "\<not> ordered_as_requested ''click_count'' ''desc''
      (listed (GetUserURLs ex_listing (ex_list_request ''click_count'' ''desc'')))"
  using list_by_click_count_is_by_created_at by simp

subsection \<open>C8: who may read a mapping\<close>

text \<open>
  The projection that the Shortener caches carries the mapping's long URL and owner
  (and its times, cut to whole seconds): \<open>cacheToURL\<close> reads back what \<open>urlData\<close> wrote.
\<close>

lemma urlData_roundtrip:
  "cacheToURL c (urlData longURL userID createdAt isActive expiry) =
     Some \<lparr>ID = 0, ShortCode = c, LongURL = longURL, UserID = userID,
           CreatedAt = time_Unix (Unix createdAt), ExpiresAt = map_option (\<lambda>t. time_Unix (Unix t)) expiry,
           ClickCount = 0, LastAccessed = None, IsActive = isActive, Metadata = []\<rparr>"
  by (cases expiry) (simp_all add: cacheToURL_def urlData_def)

lemma cached_url_after_cacheURL:
  assumes "redis_up r"
  shows "cached_url (cacheURL e r u) (ShortCode u) =
     Some \<lparr>ID = 0, ShortCode = ShortCode u, LongURL = LongURL u, UserID = UserID u,
           CreatedAt = time_Unix (Unix (CreatedAt u)),
           ExpiresAt = map_option (\<lambda>t. time_Unix (Unix t)) (ExpiresAt u),
           ClickCount = 0, LastAccessed = None, IsActive = IsActive u, Metadata = []\<rparr>"
  using assms
  by (simp add: cached_url_def cacheURL_def GetJSON_def SetJSON_def redis_Get_def redis_Set_def
        urlData_roundtrip)

lemma ShortenURL_caches_projection:
  assumes "ShortenURL e s req = (Inr u, s')" and "redis_up (redis s)"
  shows "cached_url (redis s') (ShortCode u) =
     Some \<lparr>ID = 0, ShortCode = ShortCode u, LongURL = req_LongURL req, UserID = req_UserID req,
           CreatedAt = time_Unix (Unix (CreatedAt u)),
           ExpiresAt = map_option (\<lambda>t. time_Unix (Unix t)) (ExpirationTime req),
           ClickCount = 0, LastAccessed = None, IsActive = True, Metadata = []\<rparr> \<and>
     LongURL u = req_LongURL req \<and> UserID u = req_UserID req"
  using assms
  by (auto simp: ShortenURL_def CreateURL_def Let_def cached_url_def GetJSON_def SetJSON_def
        redis_Get_def redis_Set_def urlData_roundtrip
        split: option.splits sum.splits if_splits prod.splits)

text \<open>
  Claim C8: let \<open>GetInfo(short_code, owner_id)\<close> find the mapping \<open>u\<close>, in the cache (the
  projection that the Shortener cached) or, with nothing usable cached, as an active
  row of the primary store. With an empty \<open>owner_id\<close> the mapping is returned; with a
  non-empty \<open>owner_id\<close> that differs from the mapping's owner the result is
  Unauthorized; with the owner's own id the mapping is returned. This holds on both
  paths.
\<close>

theorem GetURL_authorization:
  assumes "cached_url (redis s) c = Some u \<or>
           (cached_url (redis s) c = None \<and> GetURLByShortCode (db s) c = Inr u)"
  shows "fst (GetURL e s c []) = Inr u \<and>
         (if uid \<noteq> [] \<and> uid \<noteq> UserID u then fst (GetURL e s c uid) = Inl ErrUnauthorized
          else fst (GetURL e s c uid) = Inr u)"
  using assms by (auto simp: GetURL_def CanAccess_def)

theorem GetURL_authorization_witness:
  "map_sum id (\<lambda>u. (LongURL u, UserID u)) (fst (GetURL ex_env ex_sys ''golang'' []))
     = Inr (''https://example.com/a'', ''u1'') \<and>
   fst (GetURL ex_env ex_sys ''golang'' ''u2'') = Inl ErrUnauthorized \<and>
   map_sum id (\<lambda>u. (LongURL u, UserID u)) (fst (GetURL ex_env ex_listing ''bbb'' []))
     = Inr (''https://example.com/b'', ''u1'') \<and>
   fst (GetURL ex_env ex_listing ''bbb'' ''u2'') = Inl ErrUnauthorized"
proof -
  let ?cached = "\<lparr>ID = 0, ShortCode = ''golang'', LongURL = ''https://example.com/a'',
                  UserID = ''u1'', CreatedAt = 1000 * Second, ExpiresAt = None, ClickCount = 0,
                  LastAccessed = None, IsActive = True, Metadata = []\<rparr>"
  let ?row = "\<lparr>ID = 2, ShortCode = ''bbb'', LongURL = ''https://example.com/b'', UserID = ''u1'',
               CreatedAt = 200 * Second, ExpiresAt = None, ClickCount = 1, LastAccessed = None,
               IsActive = True, Metadata = []\<rparr>"
  have hit: "cached_url (redis ex_sys) ''golang'' = Some ?cached"
    by code_simp
  have miss: "cached_url (redis ex_listing) ''bbb'' = None \<and>
              GetURLByShortCode (db ex_listing) ''bbb'' = Inr ?row"
    by code_simp
  show ?thesis
    using GetURL_authorization [OF disjI1 [OF hit], of ex_env "''u2''"]
      GetURL_authorization [OF disjI2 [OF miss], of ex_env "''u2''"]
    by simp
qed

section \<open>Facts about Analytics\<close>

subsection \<open>C7: the two encodings of a click message\<close>

text \<open>
  Claim C7, for every message body on \<open>url.clicked\<close>, with the same clock reading for
  an event that carries no timestamp:
  \<^enum> the handler returns nil, whatever the body is and whatever \<open>ProcessClick\<close> does;
  \<^enum> a body that does not start with a quote character is parsed as it is;
  \<^enum> a body that starts with a quote character is unmarshalled as a JSON string,
    base64-decoded, and the result parsed;
  \<^enum> so a wrapped payload and its raw form (which does not itself start with a
    quote) give the same event;
  \<^enum> when a decoding step fails, no event is processed: the message is dropped.
\<close>

theorem click_message_decoding:
  "fst (click_handler c now process body) = None \<and>
   (\<not> (length body > 0 \<and> hd body = CHR 0x22) \<longrightarrow>
      snd (click_handler c now process body) = map_option (click_of_data now) (json_object c body)) \<and>
   (length body > 0 \<and> hd body = CHR 0x22 \<longrightarrow>
      snd (click_handler c now process body) =
        (case json_string c body of
           None \<Rightarrow> None
         | Some enc \<Rightarrow>
             (case base64_decode c enc of
                None \<Rightarrow> None
              | Some raw \<Rightarrow> map_option (click_of_data now) (json_object c raw)))) \<and>
   (length body > 0 \<and> hd body = CHR 0x22 \<and> json_string c body = Some enc \<and>
    base64_decode c enc = Some raw \<and> \<not> (length raw > 0 \<and> hd raw = CHR 0x22) \<longrightarrow>
      snd (click_handler c now process body) = snd (click_handler c now process raw)) \<and>
   (message_json c body = None \<or>
    (\<exists>jsonData. message_json c body = Some jsonData \<and> json_object c jsonData = None) \<longrightarrow>
      click_handler c now process body = (None, None))"
  by (auto simp: click_handler_def message_json_def Let_def split: option.splits)

theorem click_message_decoding_witness:
  "snd (click_handler ex_codec (1000 * Second) (\<lambda>ev. None) ex_wrapped) =
     snd (click_handler ex_codec (1000 * Second) (\<lambda>ev. None) ex_raw) \<and>
   map_option ev_ShortCode (snd (click_handler ex_codec (1000 * Second) (\<lambda>ev. None) ex_raw)) =
     Some ''abc'' \<and>
   click_handler ex_codec (1000 * Second) (\<lambda>ev. Some ''store down'') ''not an event'' = (None, None)"
proof -
  have wrapped: "length ex_wrapped > 0 \<and> hd ex_wrapped = CHR 0x22 \<and>
      json_string ex_codec ex_wrapped = Some ex_b64 \<and> base64_decode ex_codec ex_b64 = Some ex_raw \<and>
      \<not> (length ex_raw > 0 \<and> hd ex_raw = CHR 0x22)"
    by code_simp
  have raw: "\<not> (length ex_raw > 0 \<and> hd ex_raw = CHR 0x22) \<and>
      map_option ev_ShortCode (map_option (click_of_data (1000 * Second)) (json_object ex_codec ex_raw))
        = Some ''abc''"
    by code_simp
  have bad: "\<exists>jsonData. message_json ex_codec ''not an event'' = Some jsonData \<and>
      json_object ex_codec jsonData = None"
    by (rule exI [of _ "''not an event''"]) code_simp
  show ?thesis
    using wrapped raw bad
      click_message_decoding [of ex_codec "1000 * Second" "\<lambda>ev. None" ex_wrapped ex_b64 ex_raw]
      click_message_decoding [of ex_codec "1000 * Second" "\<lambda>ev. None" ex_raw ex_b64 ex_raw]
      click_message_decoding [of ex_codec "1000 * Second" "\<lambda>ev. Some ''store down''" "''not an event''"
        ex_b64 ex_raw]
    by simp
qed

subsection \<open>C9: a range without clicks\<close>

lemma in_range_empty_interval:
  "endTime < startTime \<Longrightarrow> in_range c startTime endTime rows = []"
  by (induction rows) (auto simp: in_range_def)

lemma inverted_request_range:
  assumes "0 < EndTime req" "EndTime req < StartTime req"
  shows "effective_end de req < effective_start ds req"
  using assms by (simp add: effective_start_def effective_end_def time_Unix_def Second_def)

lemma breakdown_Nil: "breakdown col [] = []"
  by (simp add: breakdown_def)

lemma service_no_records:
  assumes "ch_up ch" and "in_range c startTime endTime (click_analytics ch) = []"
  shows "service_GetURLStats ch c startTime endTime g =
           Inr \<lparr>rep_URLStats = \<lparr>st_ShortCode = c, TotalClicks = 0, UniqueClicks = 0,
                                 LastClicked = zero_Time, st_CreatedAt = zero_Time\<rparr>,
                 TimeSeries = [], CountryStats = [], DeviceStats = [], BrowserStats = [],
                 ReferrerStats = []\<rparr>"
  using assms
  by (simp add: service_GetURLStats_def store_GetURLStats_def query_URLStats_def
        store_GetTimeSeriesData_def store_GetCountryStats_def store_GetDeviceStats_def
        store_GetBrowserStats_def store_GetReferrerStats_def breakdown_Nil)

text \<open>
  The claim covers every request with \<open>end_time < start_time\<close>. The handler reads a
  bound that is not positive as absent and puts the default in its place (the last 30
  days, until now), so such a request is not an empty range to it: on \<open>ex_clicks\<close>,
  whose one record of \<open>golang\<close> is at second 5000, with the defaults running from second
  0 to second 9000, the requests \<open>start_time = 4000, end_time = 0\<close> and
  \<open>start_time = -5, end_time = -10\<close> both return one click.
\<close>

theorem inverted_range_with_default_counterexample:
  "EndTime (ex_stats_request 4000 0) < StartTime (ex_stats_request 4000 0) \<and>
   map_prod (\<lambda>r. (srsp_TotalClicks r, srsp_UniqueClicks r)) id
     (handler_GetURLStats ex_clicks 0 (9000 * Second) (ex_stats_request 4000 0)) = ((1, 1), None) \<and>
   EndTime (ex_stats_request (- 5) (- 10)) < StartTime (ex_stats_request (- 5) (- 10)) \<and>
   map_prod (\<lambda>r. (srsp_TotalClicks r, srsp_UniqueClicks r)) id
     (handler_GetURLStats ex_clicks 0 (9000 * Second) (ex_stats_request (- 5) (- 10))) = ((1, 1), None)"
  by code_simp

text \<open>
  Claim C9, as amended: let the columnar store answer. For every request whose
  effective time range (each bound as given when it is positive, else the default)
  contains no click record of the short code, and in particular for every request
  with \<open>0 < end_time < start_time\<close>, \<open>GetURLStats\<close> returns no error, zero totals and
  empty arrays; the store's statistics are the zero record and its four breakdowns
  (country, device, browser, referrer) are empty. A request with
  \<open>end_time < start_time\<close> whose \<open>end_time\<close> is not positive is answered over the
  default range instead.
\<close>

theorem no_matching_clicks_gives_zero_stats:
  assumes "ch_up ch"
    and "in_range (sreq_ShortCode req) (effective_start ds req) (effective_end de req)
           (click_analytics ch) = [] \<or>
         (0 < EndTime req \<and> EndTime req < StartTime req)"
  shows "handler_GetURLStats ch ds de req =
           (\<lparr>srsp_ShortCode = sreq_ShortCode req, srsp_TotalClicks = 0, srsp_UniqueClicks = 0,
             srsp_TimeSeries = [], srsp_CountryStats = [], srsp_DeviceStats = [],
             srsp_BrowserStats = [], srsp_ReferrerStats = []\<rparr>, None) \<and>
         store_GetURLStats ch (sreq_ShortCode req) (effective_start ds req) (effective_end de req) =
           Inr \<lparr>st_ShortCode = sreq_ShortCode req, TotalClicks = 0, UniqueClicks = 0,
                 LastClicked = zero_Time, st_CreatedAt = zero_Time\<rparr> \<and>
         store_GetCountryStats ch (sreq_ShortCode req) (effective_start ds req) (effective_end de req)
           = Inr [] \<and>
         store_GetDeviceStats ch (sreq_ShortCode req) (effective_start ds req) (effective_end de req)
           = Inr [] \<and>
         store_GetBrowserStats ch (sreq_ShortCode req) (effective_start ds req) (effective_end de req)
           = Inr [] \<and>
         store_GetReferrerStats ch (sreq_ShortCode req) (effective_start ds req) (effective_end de req)
           = Inr []"
proof -
  let ?c = "sreq_ShortCode req" and ?a = "effective_start ds req" and ?b = "effective_end de req"
  have none: "in_range ?c ?a ?b (click_analytics ch) = []"
    using assms(2) in_range_empty_interval inverted_request_range by blast
  have "handler_GetURLStats ch ds de req =
           (\<lparr>srsp_ShortCode = ?c, srsp_TotalClicks = 0, srsp_UniqueClicks = 0,
             srsp_TimeSeries = [], srsp_CountryStats = [], srsp_DeviceStats = [],
             srsp_BrowserStats = [], srsp_ReferrerStats = []\<rparr>, None)"
    using service_no_records [OF assms(1) none]
    by (simp add: handler_GetURLStats_def Let_def empty_stats_response_def)
  moreover have "store_GetURLStats ch ?c ?a ?b =
           Inr \<lparr>st_ShortCode = ?c, TotalClicks = 0, UniqueClicks = 0,
                 LastClicked = zero_Time, st_CreatedAt = zero_Time\<rparr>"
    using assms(1) none by (simp add: store_GetURLStats_def query_URLStats_def)
  moreover have "store_GetCountryStats ch ?c ?a ?b = Inr []"
    using assms(1) none by (simp add: store_GetCountryStats_def breakdown_Nil)
  moreover have "store_GetDeviceStats ch ?c ?a ?b = Inr []"
    using assms(1) none by (simp add: store_GetDeviceStats_def breakdown_Nil)
  moreover have "store_GetBrowserStats ch ?c ?a ?b = Inr []"
    using assms(1) none by (simp add: store_GetBrowserStats_def breakdown_Nil)
  moreover have "store_GetReferrerStats ch ?c ?a ?b = Inr []"
    using assms(1) none by (simp add: store_GetReferrerStats_def breakdown_Nil)
  ultimately show ?thesis by simp
qed

theorem no_matching_clicks_gives_zero_stats_witness:
  "map_prod (\<lambda>r. (srsp_TotalClicks r, srsp_UniqueClicks r)) id
     (handler_GetURLStats ex_clicks 0 (9000 * Second) (ex_stats_request 6000 4000)) = ((0, 0), None) \<and>
   map_prod (\<lambda>r. (srsp_TotalClicks r, srsp_UniqueClicks r)) id
     (handler_GetURLStats ex_clicks 0 (9000 * Second) (ex_stats_request 6000 7000)) = ((0, 0), None) \<and>
   map_prod (\<lambda>r. (srsp_TotalClicks r, srsp_UniqueClicks r)) id
     (handler_GetURLStats ex_clicks 0 (9000 * Second) (ex_stats_request 4000 6000)) = ((1, 1), None)"
proof -
  have up: "ch_up ex_clicks"
    by code_simp
  have inverted: "0 < EndTime (ex_stats_request 6000 4000) \<and>
      EndTime (ex_stats_request 6000 4000) < StartTime (ex_stats_request 6000 4000)"
    by code_simp
  have outside: "in_range (sreq_ShortCode (ex_stats_request 6000 7000))
      (effective_start 0 (ex_stats_request 6000 7000))
      (effective_end (9000 * Second) (ex_stats_request 6000 7000)) (click_analytics ex_clicks) = []"
    by code_simp
  have one: "map_prod (\<lambda>r. (srsp_TotalClicks r, srsp_UniqueClicks r)) id
     (handler_GetURLStats ex_clicks 0 (9000 * Second) (ex_stats_request 4000 6000)) = ((1, 1), None)"
    by code_simp
  have empty_range: "map_prod (\<lambda>r. (srsp_TotalClicks r, srsp_UniqueClicks r)) id
     (handler_GetURLStats ex_clicks 0 (9000 * Second) (ex_stats_request 6000 4000)) = ((0, 0), None)"
    using no_matching_clicks_gives_zero_stats [where ch = ex_clicks and ds = 0
        and de = "9000 * Second" and req = "ex_stats_request 6000 4000", OF up disjI2 [OF inverted]]
    by simp
  have no_clicks: "map_prod (\<lambda>r. (srsp_TotalClicks r, srsp_UniqueClicks r)) id
     (handler_GetURLStats ex_clicks 0 (9000 * Second) (ex_stats_request 6000 7000)) = ((0, 0), None)"
    using no_matching_clicks_gives_zero_stats [where ch = ex_clicks and ds = 0
        and de = "9000 * Second" and req = "ex_stats_request 6000 7000", OF up disjI1 [OF outside]]
    by simp
  show ?thesis
    using empty_range no_clicks one by simp
qed

end
